theory Spec2Isabelle
  imports Complex_Main "HOL-Library.Sublist"
begin

section \<open>The RPG assistant callable: an embedding of functions/src/index.ts\<close>

text \<open>
  The repository holds two editions of one cloud function. The file
  functions/src/index.ts exports \<^verbatim>\<open>rpgAssistantFlow\<close> and \<^verbatim>\<open>callRpgAssistantV3\<close>; a second
  file exports a flow of the same name and \<^verbatim>\<open>callRpgAssistantV2\<close>. Both are embedded,
  with the suffixes \<open>_V3\<close> and \<open>_V2\<close> on the names the two files share.

  An invocation is a function from a world to a result and a new world. The world
  holds the state of the generative-model client, the telemetry that the flow library
  attaches to its runs, and three observation traces: the requests handed to
  \<^verbatim>\<open>ai.generate\<close>, the arguments of each \<^verbatim>\<open>rpgAssistantFlow.run\<close>, and the console. The
  module-level start-up code (SDK initialisation and the check of the API key) is not
  part of an invocation and is left out.
\<close>

subsection \<open>JavaScript values\<close>

text \<open>
  The payload of a callable request is decoded JSON, and the handler inspects it
  dynamically (\<^verbatim>\<open>!userPrompt\<close>, \<^verbatim>\<open>typeof\<close>), so it is a value of a dynamic type. A
  number is the rational it denotes or NaN; an object is an association list whose
  first binding of a key is the one read.
\<close>

datatype jsval =
    JUndefined
  | JNull
  | JBool bool
  | JNum rat
  | JNaN
  | JStr string
  | JArr "jsval list"
  | JObj "(string \<times> jsval) list"

text \<open>\<^verbatim>\<open>!v\<close> is \<open>\<not> truthy v\<close>.\<close>

fun truthy :: "jsval \<Rightarrow> bool" where
  "truthy JUndefined = False"
| "truthy JNull = False"
| "truthy (JBool b) = b"
| "truthy (JNum r) = (r \<noteq> 0)"
| "truthy JNaN = False"
| "truthy (JStr s) = (s \<noteq> [])"
| "truthy (JArr xs) = True"
| "truthy (JObj fs) = True"

fun typeof :: "jsval \<Rightarrow> string" where
  "typeof JUndefined = ''undefined''"
| "typeof JNull = ''object''"
| "typeof (JBool b) = ''boolean''"
| "typeof (JNum r) = ''number''"
| "typeof JNaN = ''number''"
| "typeof (JStr s) = ''string''"
| "typeof (JArr xs) = ''object''"
| "typeof (JObj fs) = ''object''"

text \<open>
  Reading the property \<open>k\<close> in a destructuring pattern \<^verbatim>\<open>const { k } = v\<close>, for a key
  \<open>k\<close> that is no built-in property of strings or arrays (the handler reads
  \<^verbatim>\<open>userPrompt\<close> and \<^verbatim>\<open>conversationHistory\<close> only). Destructuring \<^verbatim>\<open>null\<close> or \<^verbatim>\<open>undefined\<close>
  raises a TypeError: the result \<open>None\<close>.
\<close>

fun destructure_prop :: "jsval \<Rightarrow> string \<Rightarrow> jsval option" where
  "destructure_prop JUndefined k = None"
| "destructure_prop JNull k = None"
| "destructure_prop (JObj fs) k =
     Some (case map_of fs k of None \<Rightarrow> JUndefined | Some v \<Rightarrow> v)"
| "destructure_prop v k = Some JUndefined"

subsection \<open>Requests, errors and the model client\<close>

record AuthData =
  uid :: string
  token :: jsval

record CallableRequest =
  auth :: "AuthData option"
  data :: jsval

datatype FunctionsErrorCode = Unauthenticated | InvalidArgument | Internal

text \<open>\<^verbatim>\<open>new HttpsError(code, message)\<close>: the error a callable sends to its client.\<close>

datatype HttpsError = HttpsError FunctionsErrorCode string

text \<open>
  What a call of the handler ends with: the returned object, a thrown \<^verbatim>\<open>HttpsError\<close>,
  or the TypeError of destructuring a payload that is \<^verbatim>\<open>null\<close> or \<^verbatim>\<open>undefined\<close>, which
  the handler does not catch.
\<close>

datatype call_result =
    Returns jsval
  | Throws HttpsError
  | Throws_TypeError

text \<open>A thrown value: an instance of \<^verbatim>\<open>Error\<close> with its message, or any other value.\<close>

datatype js_thrown = Error_obj string | Thrown jsval

record GenerationConfig =
  temperature :: rat
  maxOutputTokens :: nat

record GenerateRequest =
  prompt :: string
  history :: "jsval list option"
  config :: GenerationConfig

text \<open>
  What a member of an object holds: a data value, or a function, given by what a call
  of it without arguments returns.
\<close>

datatype member = Data jsval | Method jsval

text \<open>
  The response of the model client: its member \<^verbatim>\<open>text\<close> and everything else it carries.
  In the client library of this repository \<^verbatim>\<open>text\<close> is an accessor that holds the
  answer as a string, a data member; a client whose \<^verbatim>\<open>text\<close> is a method is covered as
  well. One edition calls the member (\<^verbatim>\<open>response.text()\<close>), the other reads it
  (\<^verbatim>\<open>response.text\<close>).
\<close>

record GenerateResponse =
  resp_text :: member
  resp_metadata :: jsval

text \<open>
  \<^verbatim>\<open>response.text()\<close>: a member that is data is not callable, and the call throws a
  TypeError; a method returns its value.
\<close>

definition call_text :: "GenerateResponse \<Rightarrow> js_thrown + member" where
  "call_text response =
     (case resp_text response of
        Method v \<Rightarrow> Inr (Data v)
      | Data v \<Rightarrow> Inl (Error_obj ''response.text is not a function''))"

text \<open>
  The model client is a parameter: from a request and its own state to a response or
  a thrown value, and its next state. A client that answers a second call differently
  from the first is a client whose state changes.
\<close>

type_synonym 's model_client =
  "GenerateRequest \<Rightarrow> 's \<Rightarrow> (js_thrown + GenerateResponse) \<times> 's"

text \<open>The arguments of \<^verbatim>\<open>rpgAssistantFlow.run({ userPrompt, conversationHistory })\<close>.\<close>

record FlowArgs =
  arg_userPrompt :: jsval
  arg_conversationHistory :: jsval

text \<open>The input of the flow's body: \<^verbatim>\<open>{ userPrompt: string, conversationHistory?: any[] }\<close>.\<close>

record FlowInput =
  fi_userPrompt :: string
  fi_conversationHistory :: "jsval list option"

datatype log_arg = Msg string | Val jsval | Err js_thrown

datatype log_entry = Console_log "log_arg list" | Console_error "log_arg list"

text \<open>
  What \<^verbatim>\<open>flow.run\<close> resolves to: not the flow's output but an object that holds it as
  \<^verbatim>\<open>result\<close>, beside the identifiers of the run's trace.
\<close>

record Telemetry =
  traceId :: string
  spanId :: string

record ActionResult =
  result :: string
  telemetry :: Telemetry

text \<open>The own properties of that object, all of them data.\<close>

definition ActionResult_fields :: "ActionResult \<Rightarrow> (string \<times> jsval) list" where
  "ActionResult_fields r =
     [(''result'', JStr (result r)),
      (''telemetry'', JObj [(''traceId'', JStr (traceId (telemetry r))),
                            (''spanId'', JStr (spanId (telemetry r)))])]"

text \<open>
  The template literal \<^verbatim>\<open>`${o}`\<close> of an object \<open>o\<close> with the given own properties, all of
  them data. An own \<^verbatim>\<open>toString\<close> shadows the inherited one and is not callable, and the
  inherited \<^verbatim>\<open>valueOf\<close> (or an own one, not callable either) yields no primitive: the
  conversion throws a TypeError. Otherwise the inherited \<^verbatim>\<open>toString\<close> yields
  \<^verbatim>\<open>[object Object]\<close>.
\<close>

definition template_literal_of_object :: "(string \<times> jsval) list \<Rightarrow> js_thrown + string" where
  "template_literal_of_object fs =
     (if ''toString'' \<in> set (map fst fs)
      then Inl (Error_obj ''Cannot convert object to primitive value'')
      else Inr ''[object Object]'')"

text \<open>
  The world. \<open>tracer w n\<close> is the telemetry that the library gives to the run of a flow
  that starts after \<open>n\<close> earlier runs.
\<close>

record 's world =
  client_state :: 's
  tracer :: "nat \<Rightarrow> Telemetry"
  model_calls :: "GenerateRequest list"
  flow_runs :: "FlowArgs list"
  console :: "log_entry list"

definition console_log :: "log_arg list \<Rightarrow> 's world \<Rightarrow> 's world" where
  "console_log args w = w\<lparr>console := console w @ [Console_log args]\<rparr>"

definition console_error :: "log_arg list \<Rightarrow> 's world \<Rightarrow> 's world" where
  "console_error args w = w\<lparr>console := console w @ [Console_error args]\<rparr>"

text \<open>\<^verbatim>\<open>ai.generate(req)\<close>: the client is called once, and the call is recorded.\<close>

definition ai_generate ::
  "'s model_client \<Rightarrow> GenerateRequest \<Rightarrow> 's world \<Rightarrow> (js_thrown + GenerateResponse) \<times> 's world" where
  "ai_generate client req w =
     (case client req (client_state w) of
        (r, s') \<Rightarrow> (r, w\<lparr>client_state := s', model_calls := model_calls w @ [req]\<rparr>))"

subsection \<open>The flow's input schema\<close>

text \<open>
  \<^verbatim>\<open>z.object({ text: z.string() })\<close>, \<^verbatim>\<open>z.object({ role: z.enum(['user', 'model']), parts:
  z.array(...) })\<close> and the schema of the whole input. An object conforms when it has the
  declared keys with conforming values; the objects are not strict, so other keys are
  admitted beside them. \<^verbatim>\<open>.optional()\<close> admits \<^verbatim>\<open>undefined\<close>. A conforming input reaches the
  body as it is, other keys included.
\<close>

definition part_schema :: "jsval \<Rightarrow> bool" where
  "part_schema v =
     (case v of
        JObj fs \<Rightarrow>
          (case map_of fs ''text'' of Some (JStr s) \<Rightarrow> True | _ \<Rightarrow> False)
      | _ \<Rightarrow> False)"

definition turn_schema :: "jsval \<Rightarrow> bool" where
  "turn_schema v =
     (case v of
        JObj fs \<Rightarrow>
          (case map_of fs ''role'' of
             Some (JStr r) \<Rightarrow> r = ''user'' \<or> r = ''model''
           | _ \<Rightarrow> False)
          \<and> (case map_of fs ''parts'' of
               Some (JArr ps) \<Rightarrow> list_all part_schema ps
             | _ \<Rightarrow> False)
      | _ \<Rightarrow> False)"

definition inputSchema :: "FlowArgs \<Rightarrow> FlowInput option" where
  "inputSchema args =
     (case arg_userPrompt args of
        JStr s \<Rightarrow>
          (case arg_conversationHistory args of
             JUndefined \<Rightarrow> Some \<lparr>fi_userPrompt = s, fi_conversationHistory = None\<rparr>
           | JArr ts \<Rightarrow>
               if list_all turn_schema ts
               then Some \<lparr>fi_userPrompt = s, fi_conversationHistory = Some ts\<rparr>
               else None
           | _ \<Rightarrow> None)
      | _ \<Rightarrow> None)"

text \<open>The flow's output schema, \<^verbatim>\<open>z.string()\<close>, on what the body returns.\<close>

definition outputSchema :: "member \<Rightarrow> string option" where
  "outputSchema m = (case m of Data (JStr s) \<Rightarrow> Some s | _ \<Rightarrow> None)"

text \<open>
  \<^verbatim>\<open>flow.run(args)\<close> for a flow defined by \<^verbatim>\<open>ai.defineFlow({ inputSchema, outputSchema },
  body)\<close>. The run is recorded; the arguments are checked against the input schema, and
  a mismatch is thrown before the body runs; the value the body returns is checked
  against the output schema, and a mismatch is thrown in place of it. A run that
  succeeds resolves to the object \<^verbatim>\<open>{ result, telemetry }\<close>, not to the bare output. The
  text of the validation error is the library's; it can reach the console only.
\<close>

definition flow_run ::
  "(FlowInput \<Rightarrow> 's world \<Rightarrow> (js_thrown + member) \<times> 's world) \<Rightarrow>
   FlowArgs \<Rightarrow> 's world \<Rightarrow> (js_thrown + ActionResult) \<times> 's world" where
  "flow_run body args w =
     (let w1 = w\<lparr>flow_runs := flow_runs w @ [args]\<rparr>
      in case inputSchema args of
           None \<Rightarrow> (Inl (Error_obj ''Schema validation failed.''), w1)
         | Some input \<Rightarrow>
             (case body input w1 of
                (Inl e, w2) \<Rightarrow> (Inl e, w2)
              | (Inr output, w2) \<Rightarrow>
                  (case outputSchema output of
                     None \<Rightarrow> (Inl (Error_obj ''Schema validation failed.''), w2)
                   | Some s \<Rightarrow>
                       (Inr \<lparr>result = s, telemetry = tracer w (length (flow_runs w))\<rparr>,
                        w2))))"

subsection \<open>functions/src/index.ts: rpgAssistantFlow and callRpgAssistantV3\<close>

text \<open>
  The template literal bound to \<^verbatim>\<open>fullPrompt\<close> in the flow's body. It has no
  interpolation: the destructured \<^verbatim>\<open>userPrompt\<close> is not used.
\<close>

definition fullPrompt_V3 :: string where
  \<open>fullPrompt_V3 = ''You are Bastion, a helpful assistant for the Tangent SFF RPG.''\<close>

definition rpgAssistantFlow_V3 ::
  "'s model_client \<Rightarrow> FlowInput \<Rightarrow> 's world \<Rightarrow> (js_thrown + member) \<times> 's world" where
  \<open>rpgAssistantFlow_V3 client input w =
     (let userPrompt = fi_userPrompt input;
          conversationHistory = fi_conversationHistory input;
          fullPrompt = fullPrompt_V3
      in case ai_generate client
                \<lparr>prompt = fullPrompt,
                 history = conversationHistory,
                 config = \<lparr>temperature = 7 / 10, maxOutputTokens = 500\<rparr>\<rparr> w of
           (Inl e, w') \<Rightarrow> (Inl e, w')
         | (Inr response, w') \<Rightarrow> (call_text response, w'))\<close>

text \<open>
  The handler. \<^verbatim>\<open>aiResponseText\<close> is what the run resolves to, an object; the template
  literal \<^verbatim>\<open>`${aiResponseText}`\<close> converts it to a string inside the \<^verbatim>\<open>try\<close> block, and the
  returned object is \<^verbatim>\<open>{ response: <that string> }\<close>.
\<close>

definition callRpgAssistantV3 ::
  "'s model_client \<Rightarrow> CallableRequest \<Rightarrow> 's world \<Rightarrow> call_result \<times> 's world" where
  \<open>callRpgAssistantV3 client request w =
     (let w0 = console_log [Msg ''Executing function version V3 (Clean Slate)...''] w
      in if auth request = None
         then (Throws (HttpsError Unauthenticated ''The function requires authentication.''), w0)
         else
           case (destructure_prop (data request) ''userPrompt'',
                 destructure_prop (data request) ''conversationHistory'') of
             (Some userPrompt, Some conversationHistory) \<Rightarrow>
               if \<not> truthy userPrompt \<or> typeof userPrompt \<noteq> ''string''
               then (Throws (HttpsError InvalidArgument
                       ''The function expects a valid "userPrompt" string.''), w0)
               else
                 (case flow_run (rpgAssistantFlow_V3 client)
                         \<lparr>arg_userPrompt = userPrompt,
                          arg_conversationHistory = conversationHistory\<rparr> w0 of
                    (Inr aiResponseText, w1) \<Rightarrow>
                      (case template_literal_of_object (ActionResult_fields aiResponseText) of
                         Inr s \<Rightarrow>
                           (Returns (JObj [(''response'', JStr s)]),
                            console_log
                              [Msg ''Successfully prepared payload. Sending to client.''] w1)
                       | Inl error \<Rightarrow>
                           (Throws (HttpsError Internal
                              ''An internal error occurred. Check function logs for debug trace.''),
                            console_error [Msg ''CRITICAL ERROR in V3:'', Err error] w1))
                  | (Inl error, w1) \<Rightarrow>
                      (Throws (HttpsError Internal
                         ''An internal error occurred. Check function logs for debug trace.''),
                       console_error [Msg ''CRITICAL ERROR in V3:'', Err error] w1))
           | _ \<Rightarrow> (Throws_TypeError, w0))\<close>

subsection \<open>The second edition: rpgAssistantFlow and callRpgAssistantV2\<close>

text \<open>
  The template literal bound to \<^verbatim>\<open>fullPrompt\<close> in the flow's body, as a function of the
  interpolated \<^verbatim>\<open>userPrompt\<close>. It spans three source lines: each line break is a
  newline followed by the eight spaces of the source's indentation.
\<close>

definition fullPrompt_V2 :: "string \<Rightarrow> string" where
  \<open>fullPrompt_V2 userPrompt =
     ''You are Bastion, a helpful, creative, and knowledgeable assistant for the Tangent SFF RPG.\<newline>        The user's current request is: "''
     @ userPrompt
     @ ''"\<newline>        Please provide a concise, relevant, and creative response.''\<close>

definition rpgAssistantFlow_V2 ::
  "'s model_client \<Rightarrow> FlowInput \<Rightarrow> 's world \<Rightarrow> (js_thrown + member) \<times> 's world" where
  \<open>rpgAssistantFlow_V2 client input w =
     (let userPrompt = fi_userPrompt input;
          conversationHistory = fi_conversationHistory input;
          fullPrompt = fullPrompt_V2 userPrompt
      in case ai_generate client
                \<lparr>prompt = fullPrompt,
                 history = conversationHistory,
                 config = \<lparr>temperature = 7 / 10, maxOutputTokens = 500\<rparr>\<rparr> w of
           (Inl e, w') \<Rightarrow> (Inl e, w')
         | (Inr response, w') \<Rightarrow> (Inr (resp_text response), w'))\<close>

text \<open>
  \<^verbatim>\<open>error instanceof Error && 'message' in error\<close>, and the message then logged. In the
  handler's log line of the invocation, \<^verbatim>\<open>${userPrompt}\<close> interpolates a value that is a
  string on that branch; the case expression there reads it. The handler returns what
  the run resolves to as it is: \<^verbatim>\<open>{ response: aiResponse }\<close>.
\<close>

fun error_message :: "js_thrown \<Rightarrow> string option" where
  "error_message (Error_obj m) = Some m"
| "error_message (Thrown v) = None"

definition callRpgAssistantV2 ::
  "'s model_client \<Rightarrow> CallableRequest \<Rightarrow> 's world \<Rightarrow> call_result \<times> 's world" where
  \<open>callRpgAssistantV2 client request w =
     (let w0 = console_log [Msg ''Executing function version 3.0...''] w
      in case auth request of
           None \<Rightarrow>
             (Throws (HttpsError Unauthenticated ''The AI assistant requires authentication.''),
              console_error [Msg ''Function call failed: Unauthenticated.''] w0)
         | Some a \<Rightarrow>
            (case (destructure_prop (data request) ''userPrompt'',
                   destructure_prop (data request) ''conversationHistory'') of
               (Some userPrompt, Some conversationHistory) \<Rightarrow>
                 if \<not> truthy userPrompt \<or> typeof userPrompt \<noteq> ''string''
                 then (Throws (HttpsError InvalidArgument
                         ''The function expects a valid "userPrompt" string.''),
                       console_error [Msg ''Function call failed: Invalid userPrompt.'',
                                      Val (JObj [(''data'', data request)])] w0)
                 else
                   (let w1 = console_log
                               [Msg (''V2 function invoked by user '' @ uid a
                                     @ '' with prompt: "''
                                     @ (case userPrompt of JStr s \<Rightarrow> s | _ \<Rightarrow> [])
                                     @ ''"'')] w0
                    in case flow_run (rpgAssistantFlow_V2 client)
                              \<lparr>arg_userPrompt = userPrompt,
                               arg_conversationHistory = conversationHistory\<rparr> w1 of
                         (Inr aiResponse, w2) \<Rightarrow>
                           (Returns (JObj [(''response'',
                                            JObj (ActionResult_fields aiResponse))]),
                            console_log [Msg ''Successfully received response from AI flow.''] w2)
                       | (Inl error, w2) \<Rightarrow>
                           (let w3 = console_error
                                       [Msg ''CRITICAL: Error executing RPG Assistant Flow:'',
                                        Err error] w2;
                                w4 = (case error_message error of
                                        Some m \<Rightarrow>
                                          console_error
                                            [Msg ''Underlying error message:'', Msg m] w3
                                      | None \<Rightarrow> w3)
                            in (Throws (HttpsError Internal
                                  ''An internal error occurred while processing your request. Check the function logs for details.''),
                                w4)))
             | _ \<Rightarrow> (Throws_TypeError, w0)))\<close>

subsection \<open>Mock clients and sample data\<close>

text \<open>
  The concrete clients and values at which the theorems below are instantiated. The
  first four clients answer as the client library does, with \<^verbatim>\<open>text\<close> a data member:
  the mock of the specification that echoes its input prompt, a client whose first
  call fails and whose later calls answer, a client that always fails, and a client
  whose text is an object. The fifth answers with \<^verbatim>\<open>text\<close> a method. Of the three
  conversation turns the last has a key that the schema does not declare.
\<close>

definition sample_tracer :: "nat \<Rightarrow> Telemetry" where
  "sample_tracer n = \<lparr>traceId = ''trace-7f3a'', spanId = ''span-01''\<rparr>"

definition empty_world :: "'s \<Rightarrow> 's world" where
  "empty_world s =
     \<lparr>client_state = s, tracer = sample_tracer, model_calls = [], flow_runs = [],
      console = []\<rparr>"

definition echo_client :: "unit model_client" where
  "echo_client req s =
     (Inr \<lparr>resp_text = Data (JStr (prompt req)),
           resp_metadata = JObj [(''finishReason'', JStr ''stop''),
                                 (''usage'', JObj [(''outputTokens'', JNum 12)])]\<rparr>, s)"

definition flaky_client :: "nat model_client" where
  "flaky_client req n =
     (if n = 0 then Inl (Error_obj ''503 Service Unavailable'')
      else Inr \<lparr>resp_text = Data (JStr ''The capital is Meridian.''), resp_metadata = JNull\<rparr>,
      Suc n)"

definition failing_client :: "unit model_client" where
  "failing_client req s = (Inl (Error_obj ''API key not valid''), s)"

definition structured_client :: "unit model_client" where
  "structured_client req s =
     (Inr \<lparr>resp_text = Data (JObj [(''answer'', JStr ''Meridian'')]), resp_metadata = JNull\<rparr>,
      s)"

definition method_client :: "unit model_client" where
  "method_client req s =
     (Inr \<lparr>resp_text = Method (JStr ''The capital is Meridian.''), resp_metadata = JNull\<rparr>, s)"

definition alice :: AuthData where
  "alice = \<lparr>uid = ''alice'', token = JNull\<rparr>"

definition bob :: AuthData where
  "bob = \<lparr>uid = ''bob'', token = JObj [(''admin'', JBool True)]\<rparr>"

definition turn_A :: jsval where
  "turn_A = JObj [(''role'', JStr ''user''),
                  (''parts'', JArr [JObj [(''text'', JStr ''Who rules the city?'')]])]"

definition turn_B :: jsval where
  "turn_B = JObj [(''role'', JStr ''model''),
                  (''parts'', JArr [JObj [(''text'', JStr ''The Council of Nine.'')]])]"

definition turn_C :: jsval where
  "turn_C = JObj [(''role'', JStr ''user''),
                  (''parts'', JArr [JObj [(''text'', JStr ''Name one of them.'')],
                                    JObj [(''text'', JStr ''Briefly.'')]]),
                  (''sentAt'', JNum 1718)]"

definition hello_data :: jsval where
  "hello_data = JObj [(''userPrompt'', JStr ''hello'')]"

definition history_data :: jsval where
  "history_data =
     JObj [(''userPrompt'', JStr ''hello''),
           (''conversationHistory'', JArr [turn_A, turn_B, turn_C])]"

definition empty_prompt_data :: jsval where
  "empty_prompt_data = JObj [(''userPrompt'', JStr []), (''conversationHistory'', JArr [])]"

definition bad_history_data :: jsval where
  "bad_history_data =
     JObj [(''userPrompt'', JStr ''hello''),
           (''conversationHistory'', JStr ''earlier we spoke'')]"

section \<open>Paths of the handlers\<close>

text \<open>
  Each handler takes exactly one of seven paths. The lemmas below give, for every path,
  the condition on the request and the client under which it is taken, the result, and
  what the call adds to the traces; the rules \<open>V3_cases\<close> and \<open>V2_cases\<close> say that
  there is no eighth path.
\<close>

subsection \<open>Shared steps\<close>

lemma prompt_guard_invalid:
  "\<forall>s. v = JStr s \<longrightarrow> s = [] \<Longrightarrow> \<not> truthy v \<or> typeof v \<noteq> ''string''"
  by (cases v) auto

lemma destructure_prop_other:
  "destructure_prop d k = Some v \<Longrightarrow> \<exists>v'. destructure_prop d k' = Some v'"
  by (cases d) simp_all

lemma outputSchema_Some: "(outputSchema m = Some t) = (m = Data (JStr t))"
  by (auto simp: outputSchema_def split: member.splits jsval.splits)

lemma outputSchema_None: "(outputSchema m = None) = (\<forall>t. m \<noteq> Data (JStr t))"
  by (auto simp: outputSchema_def split: member.splits jsval.splits)

lemma template_literal_of_ActionResult:
  "template_literal_of_object (ActionResult_fields r) = Inr ''[object Object]''"
  by (simp add: template_literal_of_object_def ActionResult_fields_def)

lemma flow_run_reject:
  "inputSchema args = None \<Longrightarrow>
   flow_run body args w =
     (Inl (Error_obj ''Schema validation failed.''), w\<lparr>flow_runs := flow_runs w @ [args]\<rparr>)"
  by (simp add: flow_run_def)

lemma flow_run_accept:
  "inputSchema args = Some input \<Longrightarrow>
   flow_run body args w =
     (case body input (w\<lparr>flow_runs := flow_runs w @ [args]\<rparr>) of
        (Inl e, w2) \<Rightarrow> (Inl e, w2)
      | (Inr output, w2) \<Rightarrow>
          (case outputSchema output of
             None \<Rightarrow> (Inl (Error_obj ''Schema validation failed.''), w2)
           | Some s \<Rightarrow>
               (Inr \<lparr>result = s, telemetry = tracer w (length (flow_runs w))\<rparr>, w2)))"
  by (simp add: flow_run_def)

lemma inputSchema_turns:
  "list_all turn_schema ts \<Longrightarrow>
   inputSchema \<lparr>arg_userPrompt = JStr p, arg_conversationHistory = JArr ts\<rparr> =
     Some \<lparr>fi_userPrompt = p, fi_conversationHistory = Some ts\<rparr>"
  by (simp add: inputSchema_def)

subsection \<open>callRpgAssistantV3\<close>

lemma flow_V3_raises:
  "client \<lparr>prompt = fullPrompt_V3, history = fi_conversationHistory input,
           config = \<lparr>temperature = 7 / 10, maxOutputTokens = 500\<rparr>\<rparr> (client_state w)
     = (Inl e, s') \<Longrightarrow>
   rpgAssistantFlow_V3 client input w =
     (Inl e,
      w\<lparr>client_state := s',
        model_calls := model_calls w @
          [\<lparr>prompt = fullPrompt_V3, history = fi_conversationHistory input,
            config = \<lparr>temperature = 7 / 10, maxOutputTokens = 500\<rparr>\<rparr>]\<rparr>)"
  by (simp add: rpgAssistantFlow_V3_def ai_generate_def)

lemma flow_V3_returns:
  "client \<lparr>prompt = fullPrompt_V3, history = fi_conversationHistory input,
           config = \<lparr>temperature = 7 / 10, maxOutputTokens = 500\<rparr>\<rparr> (client_state w)
     = (Inr r, s') \<Longrightarrow>
   rpgAssistantFlow_V3 client input w =
     (call_text r,
      w\<lparr>client_state := s',
        model_calls := model_calls w @
          [\<lparr>prompt = fullPrompt_V3, history = fi_conversationHistory input,
            config = \<lparr>temperature = 7 / 10, maxOutputTokens = 500\<rparr>\<rparr>]\<rparr>)"
  by (simp add: rpgAssistantFlow_V3_def ai_generate_def)

lemma run_V3_client_error:
  assumes "inputSchema args = Some input"
      and "client \<lparr>prompt = fullPrompt_V3, history = fi_conversationHistory input,
                   config = \<lparr>temperature = 7 / 10, maxOutputTokens = 500\<rparr>\<rparr> (client_state w)
             = (Inl e, s')"
  shows "\<exists>e'. flow_run (rpgAssistantFlow_V3 client) args w =
           (Inl e',
            w\<lparr>flow_runs := flow_runs w @ [args], client_state := s',
              model_calls := model_calls w @
                [\<lparr>prompt = fullPrompt_V3, history = fi_conversationHistory input,
                  config = \<lparr>temperature = 7 / 10, maxOutputTokens = 500\<rparr>\<rparr>]\<rparr>)"
  using assms(2) by (simp add: flow_run_accept [OF assms(1)] flow_V3_raises)

lemma run_V3_fails_after_answer:
  assumes "inputSchema args = Some input"
      and "client \<lparr>prompt = fullPrompt_V3, history = fi_conversationHistory input,
                   config = \<lparr>temperature = 7 / 10, maxOutputTokens = 500\<rparr>\<rparr> (client_state w)
             = (Inr r, s')"
      and "\<forall>t. call_text r \<noteq> Inr (Data (JStr t))"
  shows "\<exists>e'. flow_run (rpgAssistantFlow_V3 client) args w =
           (Inl e',
            w\<lparr>flow_runs := flow_runs w @ [args], client_state := s',
              model_calls := model_calls w @
                [\<lparr>prompt = fullPrompt_V3, history = fi_conversationHistory input,
                  config = \<lparr>temperature = 7 / 10, maxOutputTokens = 500\<rparr>\<rparr>]\<rparr>)"
proof (cases "call_text r")
  case (Inl e)
  with assms(2) show ?thesis
    by (simp add: flow_run_accept [OF assms(1)] flow_V3_returns)
next
  case (Inr m)
  with assms(3) have "outputSchema m = None"
    by (simp add: outputSchema_None)
  with assms(2) Inr show ?thesis
    by (simp add: flow_run_accept [OF assms(1)] flow_V3_returns)
qed

lemma run_V3_succeeds:
  assumes "inputSchema args = Some input"
      and "client \<lparr>prompt = fullPrompt_V3, history = fi_conversationHistory input,
                   config = \<lparr>temperature = 7 / 10, maxOutputTokens = 500\<rparr>\<rparr> (client_state w)
             = (Inr r, s')"
      and "call_text r = Inr (Data (JStr t))"
  shows "flow_run (rpgAssistantFlow_V3 client) args w =
           (Inr \<lparr>result = t, telemetry = tracer w (length (flow_runs w))\<rparr>,
            w\<lparr>flow_runs := flow_runs w @ [args], client_state := s',
              model_calls := model_calls w @
                [\<lparr>prompt = fullPrompt_V3, history = fi_conversationHistory input,
                  config = \<lparr>temperature = 7 / 10, maxOutputTokens = 500\<rparr>\<rparr>]\<rparr>)"
  using assms(2,3)
  by (simp add: flow_run_accept [OF assms(1)] flow_V3_returns outputSchema_def)

lemma V3_unauth:
  "auth request = None \<Longrightarrow>
   callRpgAssistantV3 client request w =
     (Throws (HttpsError Unauthenticated ''The function requires authentication.''),
      console_log [Msg ''Executing function version V3 (Clean Slate)...''] w)"
  by (simp add: callRpgAssistantV3_def Let_def)

lemma V3_type_error:
  assumes "auth request = Some a"
      and "destructure_prop (data request) ''userPrompt'' = None"
  shows "callRpgAssistantV3 client request w =
     (Throws_TypeError, console_log [Msg ''Executing function version V3 (Clean Slate)...''] w)"
  using assms by (simp add: callRpgAssistantV3_def Let_def)

lemma V3_invalid:
  assumes "auth request = Some a"
      and "destructure_prop (data request) ''userPrompt'' = Some v"
      and "\<forall>s. v = JStr s \<longrightarrow> s = []"
  shows \<open>callRpgAssistantV3 client request w =
     (Throws (HttpsError InvalidArgument ''The function expects a valid "userPrompt" string.''),
      console_log [Msg ''Executing function version V3 (Clean Slate)...''] w)\<close>
proof -
  from assms(2) obtain h where "destructure_prop (data request) ''conversationHistory'' = Some h"
    using destructure_prop_other by blast
  then show ?thesis
    using assms(1,2) prompt_guard_invalid [OF assms(3)]
    by (simp add: callRpgAssistantV3_def Let_def)
qed

lemma V3_valid:
  assumes "auth request = Some a"
      and "destructure_prop (data request) ''userPrompt'' = Some (JStr p)"
      and "p \<noteq> []"
      and "destructure_prop (data request) ''conversationHistory'' = Some h"
  shows \<open>callRpgAssistantV3 client request w =
     (case flow_run (rpgAssistantFlow_V3 client)
             \<lparr>arg_userPrompt = JStr p, arg_conversationHistory = h\<rparr>
             (console_log [Msg ''Executing function version V3 (Clean Slate)...''] w) of
        (Inr aiResponseText, w1) \<Rightarrow>
          (case template_literal_of_object (ActionResult_fields aiResponseText) of
             Inr s \<Rightarrow>
               (Returns (JObj [(''response'', JStr s)]),
                console_log [Msg ''Successfully prepared payload. Sending to client.''] w1)
           | Inl error \<Rightarrow>
               (Throws (HttpsError Internal
                  ''An internal error occurred. Check function logs for debug trace.''),
                console_error [Msg ''CRITICAL ERROR in V3:'', Err error] w1))
      | (Inl error, w1) \<Rightarrow>
          (Throws (HttpsError Internal
             ''An internal error occurred. Check function logs for debug trace.''),
           console_error [Msg ''CRITICAL ERROR in V3:'', Err error] w1))\<close>
  using assms by (simp add: callRpgAssistantV3_def Let_def split: prod.splits sum.splits)

lemma V3_schema_path:
  assumes "auth request = Some a"
      and "destructure_prop (data request) ''userPrompt'' = Some (JStr p)"
      and "p \<noteq> []"
      and "destructure_prop (data request) ''conversationHistory'' = Some h"
      and "inputSchema \<lparr>arg_userPrompt = JStr p, arg_conversationHistory = h\<rparr> = None"
  shows "fst (callRpgAssistantV3 client request w) =
           Throws (HttpsError Internal
             ''An internal error occurred. Check function logs for debug trace.'')"
    and "model_calls (snd (callRpgAssistantV3 client request w)) = model_calls w"
    and "client_state (snd (callRpgAssistantV3 client request w)) = client_state w"
    and "flow_runs (snd (callRpgAssistantV3 client request w)) =
           flow_runs w @ [\<lparr>arg_userPrompt = JStr p, arg_conversationHistory = h\<rparr>]"
  by (simp_all add: V3_valid [OF assms(1-4)] flow_run_reject [OF assms(5)]
        console_log_def console_error_def)

lemma V3_client_error_path:
  assumes "auth request = Some a"
      and "destructure_prop (data request) ''userPrompt'' = Some (JStr p)"
      and "p \<noteq> []"
      and "destructure_prop (data request) ''conversationHistory'' = Some h"
      and "inputSchema \<lparr>arg_userPrompt = JStr p, arg_conversationHistory = h\<rparr> = Some input"
      and "client \<lparr>prompt = fullPrompt_V3, history = fi_conversationHistory input,
                   config = \<lparr>temperature = 7 / 10, maxOutputTokens = 500\<rparr>\<rparr> (client_state w)
             = (Inl e, s')"
  shows "fst (callRpgAssistantV3 client request w) =
           Throws (HttpsError Internal
             ''An internal error occurred. Check function logs for debug trace.'')"
    and "model_calls (snd (callRpgAssistantV3 client request w)) = 
           model_calls w @
             [\<lparr>prompt = fullPrompt_V3, history = fi_conversationHistory input,
               config = \<lparr>temperature = 7 / 10, maxOutputTokens = 500\<rparr>\<rparr>]"
    and "client_state (snd (callRpgAssistantV3 client request w)) = s'"
    and "flow_runs (snd (callRpgAssistantV3 client request w)) =
           flow_runs w @ [\<lparr>arg_userPrompt = JStr p, arg_conversationHistory = h\<rparr>]"
proof -
  let ?w1 = \<open>console_log [Msg ''Executing function version V3 (Clean Slate)...''] w\<close>
  have "client \<lparr>prompt = fullPrompt_V3, history = fi_conversationHistory input,
                 config = \<lparr>temperature = 7 / 10, maxOutputTokens = 500\<rparr>\<rparr> (client_state ?w1) = (Inl e, s')"
    using assms(6) by (simp add: console_log_def)
  from run_V3_client_error [where client = client and w = "?w1", OF assms(5) this]
  obtain e' where run:
    "flow_run (rpgAssistantFlow_V3 client) \<lparr>arg_userPrompt = JStr p, arg_conversationHistory = h\<rparr> ?w1 =
       (Inl e',
        ?w1\<lparr>flow_runs := flow_runs ?w1 @ [\<lparr>arg_userPrompt = JStr p, arg_conversationHistory = h\<rparr>], client_state := s',
            model_calls := model_calls ?w1 @
              [\<lparr>prompt = fullPrompt_V3, history = fi_conversationHistory input,
                config = \<lparr>temperature = 7 / 10, maxOutputTokens = 500\<rparr>\<rparr>]\<rparr>)"
    by blast
  show "fst (callRpgAssistantV3 client request w) =
           Throws (HttpsError Internal
             ''An internal error occurred. Check function logs for debug trace.'')"
    and "model_calls (snd (callRpgAssistantV3 client request w)) = model_calls w @
             [\<lparr>prompt = fullPrompt_V3, history = fi_conversationHistory input,
               config = \<lparr>temperature = 7 / 10, maxOutputTokens = 500\<rparr>\<rparr>]"
    and "client_state (snd (callRpgAssistantV3 client request w)) = s'"
    and "flow_runs (snd (callRpgAssistantV3 client request w)) =
           flow_runs w @ [\<lparr>arg_userPrompt = JStr p, arg_conversationHistory = h\<rparr>]"
    by (simp_all only: V3_valid [OF assms(1-4)] run)
       (simp_all add: template_literal_of_ActionResult console_log_def console_error_def
          split: option.splits)
qed

lemma V3_bad_output_path:
  assumes "auth request = Some a"
      and "destructure_prop (data request) ''userPrompt'' = Some (JStr p)"
      and "p \<noteq> []"
      and "destructure_prop (data request) ''conversationHistory'' = Some h"
      and "inputSchema \<lparr>arg_userPrompt = JStr p, arg_conversationHistory = h\<rparr> = Some input"
      and "client \<lparr>prompt = fullPrompt_V3, history = fi_conversationHistory input,
                   config = \<lparr>temperature = 7 / 10, maxOutputTokens = 500\<rparr>\<rparr> (client_state w)
             = (Inr r, s')"
      and "\<forall>t. call_text r \<noteq> Inr (Data (JStr t))"
  shows "fst (callRpgAssistantV3 client request w) =
           Throws (HttpsError Internal
             ''An internal error occurred. Check function logs for debug trace.'')"
    and "model_calls (snd (callRpgAssistantV3 client request w)) = 
           model_calls w @
             [\<lparr>prompt = fullPrompt_V3, history = fi_conversationHistory input,
               config = \<lparr>temperature = 7 / 10, maxOutputTokens = 500\<rparr>\<rparr>]"
    and "client_state (snd (callRpgAssistantV3 client request w)) = s'"
    and "flow_runs (snd (callRpgAssistantV3 client request w)) =
           flow_runs w @ [\<lparr>arg_userPrompt = JStr p, arg_conversationHistory = h\<rparr>]"
proof -
  let ?w1 = \<open>console_log [Msg ''Executing function version V3 (Clean Slate)...''] w\<close>
  have "client \<lparr>prompt = fullPrompt_V3, history = fi_conversationHistory input,
                 config = \<lparr>temperature = 7 / 10, maxOutputTokens = 500\<rparr>\<rparr> (client_state ?w1) = (Inr r, s')"
    using assms(6) by (simp add: console_log_def)
  from run_V3_fails_after_answer [where client = client and w = "?w1", OF assms(5) this assms(7)]
  obtain e' where run:
    "flow_run (rpgAssistantFlow_V3 client) \<lparr>arg_userPrompt = JStr p, arg_conversationHistory = h\<rparr> ?w1 =
       (Inl e',
        ?w1\<lparr>flow_runs := flow_runs ?w1 @ [\<lparr>arg_userPrompt = JStr p, arg_conversationHistory = h\<rparr>], client_state := s',
            model_calls := model_calls ?w1 @
              [\<lparr>prompt = fullPrompt_V3, history = fi_conversationHistory input,
                config = \<lparr>temperature = 7 / 10, maxOutputTokens = 500\<rparr>\<rparr>]\<rparr>)"
    by blast
  show "fst (callRpgAssistantV3 client request w) =
           Throws (HttpsError Internal
             ''An internal error occurred. Check function logs for debug trace.'')"
    and "model_calls (snd (callRpgAssistantV3 client request w)) = model_calls w @
             [\<lparr>prompt = fullPrompt_V3, history = fi_conversationHistory input,
               config = \<lparr>temperature = 7 / 10, maxOutputTokens = 500\<rparr>\<rparr>]"
    and "client_state (snd (callRpgAssistantV3 client request w)) = s'"
    and "flow_runs (snd (callRpgAssistantV3 client request w)) =
           flow_runs w @ [\<lparr>arg_userPrompt = JStr p, arg_conversationHistory = h\<rparr>]"
    by (simp_all only: V3_valid [OF assms(1-4)] run)
       (simp_all add: template_literal_of_ActionResult console_log_def console_error_def
          split: option.splits)
qed

lemma V3_success_path:
  assumes "auth request = Some a"
      and "destructure_prop (data request) ''userPrompt'' = Some (JStr p)"
      and "p \<noteq> []"
      and "destructure_prop (data request) ''conversationHistory'' = Some h"
      and "inputSchema \<lparr>arg_userPrompt = JStr p, arg_conversationHistory = h\<rparr> = Some input"
      and "client \<lparr>prompt = fullPrompt_V3, history = fi_conversationHistory input,
                   config = \<lparr>temperature = 7 / 10, maxOutputTokens = 500\<rparr>\<rparr> (client_state w)
             = (Inr r, s')"
      and "call_text r = Inr (Data (JStr t))"
  shows "fst (callRpgAssistantV3 client request w) =
           Returns (JObj [(''response'', JStr ''[object Object]'')])"
    and "model_calls (snd (callRpgAssistantV3 client request w)) = 
           model_calls w @
             [\<lparr>prompt = fullPrompt_V3, history = fi_conversationHistory input,
               config = \<lparr>temperature = 7 / 10, maxOutputTokens = 500\<rparr>\<rparr>]"
    and "client_state (snd (callRpgAssistantV3 client request w)) = s'"
    and "flow_runs (snd (callRpgAssistantV3 client request w)) =
           flow_runs w @ [\<lparr>arg_userPrompt = JStr p, arg_conversationHistory = h\<rparr>]"
proof -
  let ?w1 = \<open>console_log [Msg ''Executing function version V3 (Clean Slate)...''] w\<close>
  have "client \<lparr>prompt = fullPrompt_V3, history = fi_conversationHistory input,
                 config = \<lparr>temperature = 7 / 10, maxOutputTokens = 500\<rparr>\<rparr> (client_state ?w1) = (Inr r, s')"
    using assms(6) by (simp add: console_log_def)
  from run_V3_succeeds [where client = client and w = "?w1", OF assms(5) this assms(7)]
  have run:
    "flow_run (rpgAssistantFlow_V3 client) \<lparr>arg_userPrompt = JStr p, arg_conversationHistory = h\<rparr> ?w1 =
       (Inr \<lparr>result = t, telemetry = tracer ?w1 (length (flow_runs ?w1))\<rparr>,
        ?w1\<lparr>flow_runs := flow_runs ?w1 @ [\<lparr>arg_userPrompt = JStr p, arg_conversationHistory = h\<rparr>], client_state := s',
            model_calls := model_calls ?w1 @
              [\<lparr>prompt = fullPrompt_V3, history = fi_conversationHistory input,
                config = \<lparr>temperature = 7 / 10, maxOutputTokens = 500\<rparr>\<rparr>]\<rparr>)"
    .
  show "fst (callRpgAssistantV3 client request w) =
           Returns (JObj [(''response'', JStr ''[object Object]'')])"
    and "model_calls (snd (callRpgAssistantV3 client request w)) = model_calls w @
             [\<lparr>prompt = fullPrompt_V3, history = fi_conversationHistory input,
               config = \<lparr>temperature = 7 / 10, maxOutputTokens = 500\<rparr>\<rparr>]"
    and "client_state (snd (callRpgAssistantV3 client request w)) = s'"
    and "flow_runs (snd (callRpgAssistantV3 client request w)) =
           flow_runs w @ [\<lparr>arg_userPrompt = JStr p, arg_conversationHistory = h\<rparr>]"
    by (simp_all only: V3_valid [OF assms(1-4)] run)
       (simp_all add: template_literal_of_ActionResult console_log_def console_error_def
          split: option.splits)
qed

lemma V3_cases
  [case_names unauth type_error invalid schema client_error bad_output success]:
  fixes client :: "'s model_client"
  obtains
    (unauth) "auth request = None"
  | (type_error) a where "auth request = Some a"
      "destructure_prop (data request) ''userPrompt'' = None"
  | (invalid) a v where "auth request = Some a"
      "destructure_prop (data request) ''userPrompt'' = Some v"
      "\<forall>s. v = JStr s \<longrightarrow> s = []"
  | (schema) a p h where "auth request = Some a"
      "destructure_prop (data request) ''userPrompt'' = Some (JStr p)" "p \<noteq> []"
      "destructure_prop (data request) ''conversationHistory'' = Some h"
      "inputSchema \<lparr>arg_userPrompt = JStr p, arg_conversationHistory = h\<rparr> = None"
  | (client_error) a p h input e s' where "auth request = Some a"
      "destructure_prop (data request) ''userPrompt'' = Some (JStr p)" "p \<noteq> []"
      "destructure_prop (data request) ''conversationHistory'' = Some h"
      "inputSchema \<lparr>arg_userPrompt = JStr p, arg_conversationHistory = h\<rparr> = Some input"
      "client \<lparr>prompt = fullPrompt_V3, history = fi_conversationHistory input,
               config = \<lparr>temperature = 7 / 10, maxOutputTokens = 500\<rparr>\<rparr> (client_state w)
         = (Inl e, s')"
  | (bad_output) a p h input r s' where "auth request = Some a"
      "destructure_prop (data request) ''userPrompt'' = Some (JStr p)" "p \<noteq> []"
      "destructure_prop (data request) ''conversationHistory'' = Some h"
      "inputSchema \<lparr>arg_userPrompt = JStr p, arg_conversationHistory = h\<rparr> = Some input"
      "client \<lparr>prompt = fullPrompt_V3, history = fi_conversationHistory input,
               config = \<lparr>temperature = 7 / 10, maxOutputTokens = 500\<rparr>\<rparr> (client_state w)
         = (Inr r, s')"
      "\<forall>t. call_text r \<noteq> Inr (Data (JStr t))"
  | (success) a p h input r s' t where "auth request = Some a"
      "destructure_prop (data request) ''userPrompt'' = Some (JStr p)" "p \<noteq> []"
      "destructure_prop (data request) ''conversationHistory'' = Some h"
      "inputSchema \<lparr>arg_userPrompt = JStr p, arg_conversationHistory = h\<rparr> = Some input"
      "client \<lparr>prompt = fullPrompt_V3, history = fi_conversationHistory input,
               config = \<lparr>temperature = 7 / 10, maxOutputTokens = 500\<rparr>\<rparr> (client_state w)
         = (Inr r, s')"
      "call_text r = Inr (Data (JStr t))"
proof (cases "auth request")
  case None
  then show ?thesis by (rule unauth)
next
  case (Some a)
  show ?thesis
  proof (cases "destructure_prop (data request) ''userPrompt''")
    case None
    with Some show ?thesis by (rule type_error)
  next
    case v: (Some v)
    then obtain h where h: "destructure_prop (data request) ''conversationHistory'' = Some h"
      using destructure_prop_other by blast
    show ?thesis
    proof (cases "\<forall>s. v = JStr s \<longrightarrow> s = []")
      case True
      with Some v show ?thesis by (rule invalid)
    next
      case False
      then obtain p where p: "v = JStr p" "p \<noteq> []" by blast
      let ?args = "\<lparr>arg_userPrompt = JStr p, arg_conversationHistory = h\<rparr>"
      show ?thesis
      proof (cases "inputSchema ?args")
        case None
        with Some v [unfolded p(1)] p(2) h show ?thesis by (rule schema)
      next
        case input: (Some input)
        let ?req = "\<lparr>prompt = fullPrompt_V3, history = fi_conversationHistory input,
                      config = \<lparr>temperature = 7 / 10, maxOutputTokens = 500\<rparr>\<rparr>"
        obtain res s' where c: "client ?req (client_state w) = (res, s')"
          by (cases "client ?req (client_state w)") auto
        show ?thesis
        proof (cases res)
          case (Inl e)
          from Some v [unfolded p(1)] p(2) h input c [unfolded Inl]
          show ?thesis by (rule client_error)
        next
          case (Inr r)
          show ?thesis
          proof (cases "\<exists>t. call_text r = Inr (Data (JStr t))")
            case False
            then have "\<forall>t. call_text r \<noteq> Inr (Data (JStr t))"
              by (simp add: outputSchema_None)
            with Some v [unfolded p(1)] p(2) h input c [unfolded Inr]
            show ?thesis by (rule bad_output)
          next
            case True
            then obtain t where "call_text r = Inr (Data (JStr t))" by blast
            with Some v [unfolded p(1)] p(2) h input c [unfolded Inr]
            show ?thesis by (rule success)
          qed
        qed
      qed
    qed
  qed
qed

subsection \<open>callRpgAssistantV2\<close>

lemma flow_V2_raises:
  "client \<lparr>prompt = fullPrompt_V2 (fi_userPrompt input), history = fi_conversationHistory input,
           config = \<lparr>temperature = 7 / 10, maxOutputTokens = 500\<rparr>\<rparr> (client_state w)
     = (Inl e, s') \<Longrightarrow>
   rpgAssistantFlow_V2 client input w =
     (Inl e,
      w\<lparr>client_state := s',
        model_calls := model_calls w @
          [\<lparr>prompt = fullPrompt_V2 (fi_userPrompt input), history = fi_conversationHistory input,
            config = \<lparr>temperature = 7 / 10, maxOutputTokens = 500\<rparr>\<rparr>]\<rparr>)"
  by (simp add: rpgAssistantFlow_V2_def ai_generate_def)

lemma flow_V2_returns:
  "client \<lparr>prompt = fullPrompt_V2 (fi_userPrompt input), history = fi_conversationHistory input,
           config = \<lparr>temperature = 7 / 10, maxOutputTokens = 500\<rparr>\<rparr> (client_state w)
     = (Inr r, s') \<Longrightarrow>
   rpgAssistantFlow_V2 client input w =
     (Inr (resp_text r),
      w\<lparr>client_state := s',
        model_calls := model_calls w @
          [\<lparr>prompt = fullPrompt_V2 (fi_userPrompt input), history = fi_conversationHistory input,
            config = \<lparr>temperature = 7 / 10, maxOutputTokens = 500\<rparr>\<rparr>]\<rparr>)"
  by (simp add: rpgAssistantFlow_V2_def ai_generate_def)

lemma run_V2_client_error:
  assumes "inputSchema args = Some input"
      and "client \<lparr>prompt = fullPrompt_V2 (fi_userPrompt input), history = fi_conversationHistory input,
                   config = \<lparr>temperature = 7 / 10, maxOutputTokens = 500\<rparr>\<rparr> (client_state w)
             = (Inl e, s')"
  shows "\<exists>e'. flow_run (rpgAssistantFlow_V2 client) args w =
           (Inl e',
            w\<lparr>flow_runs := flow_runs w @ [args], client_state := s',
              model_calls := model_calls w @
                [\<lparr>prompt = fullPrompt_V2 (fi_userPrompt input), history = fi_conversationHistory input,
                  config = \<lparr>temperature = 7 / 10, maxOutputTokens = 500\<rparr>\<rparr>]\<rparr>)"
  using assms(2) by (simp add: flow_run_accept [OF assms(1)] flow_V2_raises)

lemma run_V2_fails_after_answer:
  assumes "inputSchema args = Some input"
      and "client \<lparr>prompt = fullPrompt_V2 (fi_userPrompt input), history = fi_conversationHistory input,
                   config = \<lparr>temperature = 7 / 10, maxOutputTokens = 500\<rparr>\<rparr> (client_state w)
             = (Inr r, s')"
      and "outputSchema (resp_text r) = None"
  shows "\<exists>e'. flow_run (rpgAssistantFlow_V2 client) args w =
           (Inl e',
            w\<lparr>flow_runs := flow_runs w @ [args], client_state := s',
              model_calls := model_calls w @
                [\<lparr>prompt = fullPrompt_V2 (fi_userPrompt input), history = fi_conversationHistory input,
                  config = \<lparr>temperature = 7 / 10, maxOutputTokens = 500\<rparr>\<rparr>]\<rparr>)"
  using assms(2,3) by (simp add: flow_run_accept [OF assms(1)] flow_V2_returns)

lemma run_V2_succeeds:
  assumes "inputSchema args = Some input"
      and "client \<lparr>prompt = fullPrompt_V2 (fi_userPrompt input), history = fi_conversationHistory input,
                   config = \<lparr>temperature = 7 / 10, maxOutputTokens = 500\<rparr>\<rparr> (client_state w)
             = (Inr r, s')"
      and "resp_text r = Data (JStr t)"
  shows "flow_run (rpgAssistantFlow_V2 client) args w =
           (Inr \<lparr>result = t, telemetry = tracer w (length (flow_runs w))\<rparr>,
            w\<lparr>flow_runs := flow_runs w @ [args], client_state := s',
              model_calls := model_calls w @
                [\<lparr>prompt = fullPrompt_V2 (fi_userPrompt input), history = fi_conversationHistory input,
                  config = \<lparr>temperature = 7 / 10, maxOutputTokens = 500\<rparr>\<rparr>]\<rparr>)"
  using assms(2,3)
  by (simp add: flow_run_accept [OF assms(1)] flow_V2_returns outputSchema_def)

lemma V2_unauth:
  "auth request = None \<Longrightarrow>
   callRpgAssistantV2 client request w =
     (Throws (HttpsError Unauthenticated ''The AI assistant requires authentication.''),
      console_error [Msg ''Function call failed: Unauthenticated.'']
        (console_log [Msg ''Executing function version 3.0...''] w))"
  by (simp add: callRpgAssistantV2_def Let_def)

lemma V2_type_error:
  assumes "auth request = Some a"
      and "destructure_prop (data request) ''userPrompt'' = None"
  shows "callRpgAssistantV2 client request w =
     (Throws_TypeError, console_log [Msg ''Executing function version 3.0...''] w)"
  using assms by (simp add: callRpgAssistantV2_def Let_def)

lemma V2_invalid:
  assumes "auth request = Some a"
      and "destructure_prop (data request) ''userPrompt'' = Some v"
      and "\<forall>s. v = JStr s \<longrightarrow> s = []"
  shows \<open>callRpgAssistantV2 client request w =
     (Throws (HttpsError InvalidArgument ''The function expects a valid "userPrompt" string.''),
      console_error [Msg ''Function call failed: Invalid userPrompt.'',
                     Val (JObj [(''data'', data request)])]
        (console_log [Msg ''Executing function version 3.0...''] w))\<close>
proof -
  from assms(2) obtain h where "destructure_prop (data request) ''conversationHistory'' = Some h"
    using destructure_prop_other by blast
  then show ?thesis
    using assms(1,2) prompt_guard_invalid [OF assms(3)]
    by (simp add: callRpgAssistantV2_def Let_def)
qed

lemma V2_valid:
  assumes "auth request = Some a"
      and "destructure_prop (data request) ''userPrompt'' = Some (JStr p)"
      and "p \<noteq> []"
      and "destructure_prop (data request) ''conversationHistory'' = Some h"
  shows \<open>callRpgAssistantV2 client request w =
     (case flow_run (rpgAssistantFlow_V2 client)
             \<lparr>arg_userPrompt = JStr p, arg_conversationHistory = h\<rparr>
             (console_log
                [Msg (''V2 function invoked by user '' @ uid a @ '' with prompt: "'' @ p @ ''"'')]
                (console_log [Msg ''Executing function version 3.0...''] w)) of
        (Inr aiResponse, w2) \<Rightarrow>
          (Returns (JObj [(''response'', JObj (ActionResult_fields aiResponse))]),
           console_log [Msg ''Successfully received response from AI flow.''] w2)
      | (Inl error, w2) \<Rightarrow>
          (Throws (HttpsError Internal
             ''An internal error occurred while processing your request. Check the function logs for details.''),
           case error_message error of
             Some m \<Rightarrow>
               console_error [Msg ''Underlying error message:'', Msg m]
                 (console_error
                    [Msg ''CRITICAL: Error executing RPG Assistant Flow:'', Err error] w2)
           | None \<Rightarrow>
               console_error
                 [Msg ''CRITICAL: Error executing RPG Assistant Flow:'', Err error] w2))\<close>
  using assms by (simp add: callRpgAssistantV2_def Let_def split: prod.splits sum.splits)

lemma V2_schema_path:
  assumes "auth request = Some a"
      and "destructure_prop (data request) ''userPrompt'' = Some (JStr p)"
      and "p \<noteq> []"
      and "destructure_prop (data request) ''conversationHistory'' = Some h"
      and "inputSchema \<lparr>arg_userPrompt = JStr p, arg_conversationHistory = h\<rparr> = None"
  shows "fst (callRpgAssistantV2 client request w) =
           Throws (HttpsError Internal
             ''An internal error occurred while processing your request. Check the function logs for details.'')"
    and "model_calls (snd (callRpgAssistantV2 client request w)) = model_calls w"
    and "client_state (snd (callRpgAssistantV2 client request w)) = client_state w"
    and "flow_runs (snd (callRpgAssistantV2 client request w)) =
           flow_runs w @ [\<lparr>arg_userPrompt = JStr p, arg_conversationHistory = h\<rparr>]"
  by (simp_all add: V2_valid [OF assms(1-4)] flow_run_reject [OF assms(5)]
        console_log_def console_error_def)

lemma V2_client_error_path:
  assumes "auth request = Some a"
      and "destructure_prop (data request) ''userPrompt'' = Some (JStr p)"
      and "p \<noteq> []"
      and "destructure_prop (data request) ''conversationHistory'' = Some h"
      and "inputSchema \<lparr>arg_userPrompt = JStr p, arg_conversationHistory = h\<rparr> = Some input"
      and "client \<lparr>prompt = fullPrompt_V2 (fi_userPrompt input), history = fi_conversationHistory input,
                   config = \<lparr>temperature = 7 / 10, maxOutputTokens = 500\<rparr>\<rparr> (client_state w)
             = (Inl e, s')"
  shows "fst (callRpgAssistantV2 client request w) =
           Throws (HttpsError Internal
             ''An internal error occurred while processing your request. Check the function logs for details.'')"
    and "model_calls (snd (callRpgAssistantV2 client request w)) = 
           model_calls w @
             [\<lparr>prompt = fullPrompt_V2 (fi_userPrompt input), history = fi_conversationHistory input,
               config = \<lparr>temperature = 7 / 10, maxOutputTokens = 500\<rparr>\<rparr>]"
    and "client_state (snd (callRpgAssistantV2 client request w)) = s'"
    and "flow_runs (snd (callRpgAssistantV2 client request w)) =
           flow_runs w @ [\<lparr>arg_userPrompt = JStr p, arg_conversationHistory = h\<rparr>]"
proof -
  let ?w1 = \<open>console_log
                [Msg (''V2 function invoked by user '' @ uid a @ '' with prompt: "'' @ p @ ''"'')]
                (console_log [Msg ''Executing function version 3.0...''] w)\<close>
  have "client \<lparr>prompt = fullPrompt_V2 (fi_userPrompt input), history = fi_conversationHistory input,
                 config = \<lparr>temperature = 7 / 10, maxOutputTokens = 500\<rparr>\<rparr> (client_state ?w1) = (Inl e, s')"
    using assms(6) by (simp add: console_log_def)
  from run_V2_client_error [where client = client and w = "?w1", OF assms(5) this]
  obtain e' where run:
    "flow_run (rpgAssistantFlow_V2 client) \<lparr>arg_userPrompt = JStr p, arg_conversationHistory = h\<rparr> ?w1 =
       (Inl e',
        ?w1\<lparr>flow_runs := flow_runs ?w1 @ [\<lparr>arg_userPrompt = JStr p, arg_conversationHistory = h\<rparr>], client_state := s',
            model_calls := model_calls ?w1 @
              [\<lparr>prompt = fullPrompt_V2 (fi_userPrompt input), history = fi_conversationHistory input,
                config = \<lparr>temperature = 7 / 10, maxOutputTokens = 500\<rparr>\<rparr>]\<rparr>)"
    by blast
  show "fst (callRpgAssistantV2 client request w) =
           Throws (HttpsError Internal
             ''An internal error occurred while processing your request. Check the function logs for details.'')"
    and "model_calls (snd (callRpgAssistantV2 client request w)) = model_calls w @
             [\<lparr>prompt = fullPrompt_V2 (fi_userPrompt input), history = fi_conversationHistory input,
               config = \<lparr>temperature = 7 / 10, maxOutputTokens = 500\<rparr>\<rparr>]"
    and "client_state (snd (callRpgAssistantV2 client request w)) = s'"
    and "flow_runs (snd (callRpgAssistantV2 client request w)) =
           flow_runs w @ [\<lparr>arg_userPrompt = JStr p, arg_conversationHistory = h\<rparr>]"
    by (simp_all only: V2_valid [OF assms(1-4)] run)
       (simp_all add: template_literal_of_ActionResult console_log_def console_error_def
          split: option.splits)
qed

lemma V2_bad_output_path:
  assumes "auth request = Some a"
      and "destructure_prop (data request) ''userPrompt'' = Some (JStr p)"
      and "p \<noteq> []"
      and "destructure_prop (data request) ''conversationHistory'' = Some h"
      and "inputSchema \<lparr>arg_userPrompt = JStr p, arg_conversationHistory = h\<rparr> = Some input"
      and "client \<lparr>prompt = fullPrompt_V2 (fi_userPrompt input), history = fi_conversationHistory input,
                   config = \<lparr>temperature = 7 / 10, maxOutputTokens = 500\<rparr>\<rparr> (client_state w)
             = (Inr r, s')"
      and "outputSchema (resp_text r) = None"
  shows "fst (callRpgAssistantV2 client request w) =
           Throws (HttpsError Internal
             ''An internal error occurred while processing your request. Check the function logs for details.'')"
    and "model_calls (snd (callRpgAssistantV2 client request w)) = 
           model_calls w @
             [\<lparr>prompt = fullPrompt_V2 (fi_userPrompt input), history = fi_conversationHistory input,
               config = \<lparr>temperature = 7 / 10, maxOutputTokens = 500\<rparr>\<rparr>]"
    and "client_state (snd (callRpgAssistantV2 client request w)) = s'"
    and "flow_runs (snd (callRpgAssistantV2 client request w)) =
           flow_runs w @ [\<lparr>arg_userPrompt = JStr p, arg_conversationHistory = h\<rparr>]"
proof -
  let ?w1 = \<open>console_log
                [Msg (''V2 function invoked by user '' @ uid a @ '' with prompt: "'' @ p @ ''"'')]
                (console_log [Msg ''Executing function version 3.0...''] w)\<close>
  have "client \<lparr>prompt = fullPrompt_V2 (fi_userPrompt input), history = fi_conversationHistory input,
                 config = \<lparr>temperature = 7 / 10, maxOutputTokens = 500\<rparr>\<rparr> (client_state ?w1) = (Inr r, s')"
    using assms(6) by (simp add: console_log_def)
  from run_V2_fails_after_answer [where client = client and w = "?w1", OF assms(5) this assms(7)]
  obtain e' where run:
    "flow_run (rpgAssistantFlow_V2 client) \<lparr>arg_userPrompt = JStr p, arg_conversationHistory = h\<rparr> ?w1 =
       (Inl e',
        ?w1\<lparr>flow_runs := flow_runs ?w1 @ [\<lparr>arg_userPrompt = JStr p, arg_conversationHistory = h\<rparr>], client_state := s',
            model_calls := model_calls ?w1 @
              [\<lparr>prompt = fullPrompt_V2 (fi_userPrompt input), history = fi_conversationHistory input,
                config = \<lparr>temperature = 7 / 10, maxOutputTokens = 500\<rparr>\<rparr>]\<rparr>)"
    by blast
  show "fst (callRpgAssistantV2 client request w) =
           Throws (HttpsError Internal
             ''An internal error occurred while processing your request. Check the function logs for details.'')"
    and "model_calls (snd (callRpgAssistantV2 client request w)) = model_calls w @
             [\<lparr>prompt = fullPrompt_V2 (fi_userPrompt input), history = fi_conversationHistory input,
               config = \<lparr>temperature = 7 / 10, maxOutputTokens = 500\<rparr>\<rparr>]"
    and "client_state (snd (callRpgAssistantV2 client request w)) = s'"
    and "flow_runs (snd (callRpgAssistantV2 client request w)) =
           flow_runs w @ [\<lparr>arg_userPrompt = JStr p, arg_conversationHistory = h\<rparr>]"
    by (simp_all only: V2_valid [OF assms(1-4)] run)
       (simp_all add: template_literal_of_ActionResult console_log_def console_error_def
          split: option.splits)
qed

lemma V2_success_path:
  assumes "auth request = Some a"
      and "destructure_prop (data request) ''userPrompt'' = Some (JStr p)"
      and "p \<noteq> []"
      and "destructure_prop (data request) ''conversationHistory'' = Some h"
      and "inputSchema \<lparr>arg_userPrompt = JStr p, arg_conversationHistory = h\<rparr> = Some input"
      and "client \<lparr>prompt = fullPrompt_V2 (fi_userPrompt input), history = fi_conversationHistory input,
                   config = \<lparr>temperature = 7 / 10, maxOutputTokens = 500\<rparr>\<rparr> (client_state w)
             = (Inr r, s')"
      and "resp_text r = Data (JStr t)"
  shows "fst (callRpgAssistantV2 client request w) =
           Returns (JObj [(''response'',
             JObj (ActionResult_fields
                     \<lparr>result = t, telemetry = tracer w (length (flow_runs w))\<rparr>))])"
    and "model_calls (snd (callRpgAssistantV2 client request w)) = 
           model_calls w @
             [\<lparr>prompt = fullPrompt_V2 (fi_userPrompt input), history = fi_conversationHistory input,
               config = \<lparr>temperature = 7 / 10, maxOutputTokens = 500\<rparr>\<rparr>]"
    and "client_state (snd (callRpgAssistantV2 client request w)) = s'"
    and "flow_runs (snd (callRpgAssistantV2 client request w)) =
           flow_runs w @ [\<lparr>arg_userPrompt = JStr p, arg_conversationHistory = h\<rparr>]"
proof -
  let ?w1 = \<open>console_log
                [Msg (''V2 function invoked by user '' @ uid a @ '' with prompt: "'' @ p @ ''"'')]
                (console_log [Msg ''Executing function version 3.0...''] w)\<close>
  have "client \<lparr>prompt = fullPrompt_V2 (fi_userPrompt input), history = fi_conversationHistory input,
                 config = \<lparr>temperature = 7 / 10, maxOutputTokens = 500\<rparr>\<rparr> (client_state ?w1) = (Inr r, s')"
    using assms(6) by (simp add: console_log_def)
  from run_V2_succeeds [where client = client and w = "?w1", OF assms(5) this assms(7)]
  have run:
    "flow_run (rpgAssistantFlow_V2 client) \<lparr>arg_userPrompt = JStr p, arg_conversationHistory = h\<rparr> ?w1 =
       (Inr \<lparr>result = t, telemetry = tracer ?w1 (length (flow_runs ?w1))\<rparr>,
        ?w1\<lparr>flow_runs := flow_runs ?w1 @ [\<lparr>arg_userPrompt = JStr p, arg_conversationHistory = h\<rparr>], client_state := s',
            model_calls := model_calls ?w1 @
              [\<lparr>prompt = fullPrompt_V2 (fi_userPrompt input), history = fi_conversationHistory input,
                config = \<lparr>temperature = 7 / 10, maxOutputTokens = 500\<rparr>\<rparr>]\<rparr>)"
    .
  show "fst (callRpgAssistantV2 client request w) =
           Returns (JObj [(''response'',
             JObj (ActionResult_fields
                     \<lparr>result = t, telemetry = tracer w (length (flow_runs w))\<rparr>))])"
    and "model_calls (snd (callRpgAssistantV2 client request w)) = model_calls w @
             [\<lparr>prompt = fullPrompt_V2 (fi_userPrompt input), history = fi_conversationHistory input,
               config = \<lparr>temperature = 7 / 10, maxOutputTokens = 500\<rparr>\<rparr>]"
    and "client_state (snd (callRpgAssistantV2 client request w)) = s'"
    and "flow_runs (snd (callRpgAssistantV2 client request w)) =
           flow_runs w @ [\<lparr>arg_userPrompt = JStr p, arg_conversationHistory = h\<rparr>]"
    by (simp_all only: V2_valid [OF assms(1-4)] run)
       (simp_all add: template_literal_of_ActionResult console_log_def console_error_def
          split: option.splits)
qed

lemma V2_cases
  [case_names unauth type_error invalid schema client_error bad_output success]:
  fixes client :: "'s model_client"
  obtains
    (unauth) "auth request = None"
  | (type_error) a where "auth request = Some a"
      "destructure_prop (data request) ''userPrompt'' = None"
  | (invalid) a v where "auth request = Some a"
      "destructure_prop (data request) ''userPrompt'' = Some v"
      "\<forall>s. v = JStr s \<longrightarrow> s = []"
  | (schema) a p h where "auth request = Some a"
      "destructure_prop (data request) ''userPrompt'' = Some (JStr p)" "p \<noteq> []"
      "destructure_prop (data request) ''conversationHistory'' = Some h"
      "inputSchema \<lparr>arg_userPrompt = JStr p, arg_conversationHistory = h\<rparr> = None"
  | (client_error) a p h input e s' where "auth request = Some a"
      "destructure_prop (data request) ''userPrompt'' = Some (JStr p)" "p \<noteq> []"
      "destructure_prop (data request) ''conversationHistory'' = Some h"
      "inputSchema \<lparr>arg_userPrompt = JStr p, arg_conversationHistory = h\<rparr> = Some input"
      "client \<lparr>prompt = fullPrompt_V2 (fi_userPrompt input), history = fi_conversationHistory input,
               config = \<lparr>temperature = 7 / 10, maxOutputTokens = 500\<rparr>\<rparr> (client_state w)
         = (Inl e, s')"
  | (bad_output) a p h input r s' where "auth request = Some a"
      "destructure_prop (data request) ''userPrompt'' = Some (JStr p)" "p \<noteq> []"
      "destructure_prop (data request) ''conversationHistory'' = Some h"
      "inputSchema \<lparr>arg_userPrompt = JStr p, arg_conversationHistory = h\<rparr> = Some input"
      "client \<lparr>prompt = fullPrompt_V2 (fi_userPrompt input), history = fi_conversationHistory input,
               config = \<lparr>temperature = 7 / 10, maxOutputTokens = 500\<rparr>\<rparr> (client_state w)
         = (Inr r, s')"
      "outputSchema (resp_text r) = None"
  | (success) a p h input r s' t where "auth request = Some a"
      "destructure_prop (data request) ''userPrompt'' = Some (JStr p)" "p \<noteq> []"
      "destructure_prop (data request) ''conversationHistory'' = Some h"
      "inputSchema \<lparr>arg_userPrompt = JStr p, arg_conversationHistory = h\<rparr> = Some input"
      "client \<lparr>prompt = fullPrompt_V2 (fi_userPrompt input), history = fi_conversationHistory input,
               config = \<lparr>temperature = 7 / 10, maxOutputTokens = 500\<rparr>\<rparr> (client_state w)
         = (Inr r, s')"
      "resp_text r = Data (JStr t)"
proof (cases "auth request")
  case None
  then show ?thesis by (rule unauth)
next
  case (Some a)
  show ?thesis
  proof (cases "destructure_prop (data request) ''userPrompt''")
    case None
    with Some show ?thesis by (rule type_error)
  next
    case v: (Some v)
    then obtain h where h: "destructure_prop (data request) ''conversationHistory'' = Some h"
      using destructure_prop_other by blast
    show ?thesis
    proof (cases "\<forall>s. v = JStr s \<longrightarrow> s = []")
      case True
      with Some v show ?thesis by (rule invalid)
    next
      case False
      then obtain p where p: "v = JStr p" "p \<noteq> []" by blast
      let ?args = "\<lparr>arg_userPrompt = JStr p, arg_conversationHistory = h\<rparr>"
      show ?thesis
      proof (cases "inputSchema ?args")
        case None
        with Some v [unfolded p(1)] p(2) h show ?thesis by (rule schema)
      next
        case input: (Some input)
        let ?req = "\<lparr>prompt = fullPrompt_V2 (fi_userPrompt input), history = fi_conversationHistory input,
                      config = \<lparr>temperature = 7 / 10, maxOutputTokens = 500\<rparr>\<rparr>"
        obtain res s' where c: "client ?req (client_state w) = (res, s')"
          by (cases "client ?req (client_state w)") auto
        show ?thesis
        proof (cases res)
          case (Inl e)
          from Some v [unfolded p(1)] p(2) h input c [unfolded Inl]
          show ?thesis by (rule client_error)
        next
          case (Inr r)
          show ?thesis
          proof (cases "\<exists>t. resp_text r = Data (JStr t)")
            case False
            then have "outputSchema (resp_text r) = None"
              by (simp add: outputSchema_None)
            with Some v [unfolded p(1)] p(2) h input c [unfolded Inr]
            show ?thesis by (rule bad_output)
          next
            case True
            then obtain t where "resp_text r = Data (JStr t)" by blast
            with Some v [unfolded p(1)] p(2) h input c [unfolded Inr]
            show ?thesis by (rule success)
          qed
        qed
      qed
    qed
  qed
qed

subsection \<open>What a call can have done\<close>

text \<open>
  The outcome of a call, read off its result and the traces. Either the flow was not
  run, and the call ended with an error other than \<open>internal\<close>; or the flow rejected
  its arguments before the model client was invoked; or the flow accepted them and
  invoked the client exactly once, and the client threw, or it answered and the flow
  failed on the answer, or the run succeeded.
\<close>

lemma V3_early_paths:
  assumes "auth request = None
           \<or> destructure_prop (data request) ''userPrompt'' = None
           \<or> (\<exists>v. destructure_prop (data request) ''userPrompt'' = Some v
                  \<and> (\<forall>s. v = JStr s \<longrightarrow> s = []))"
  shows "model_calls (snd (callRpgAssistantV3 client request w)) = model_calls w
       \<and> flow_runs (snd (callRpgAssistantV3 client request w)) = flow_runs w
       \<and> client_state (snd (callRpgAssistantV3 client request w)) = client_state w
       \<and> (\<forall>v. fst (callRpgAssistantV3 client request w) \<noteq> Returns v)
       \<and> fst (callRpgAssistantV3 client request w) \<noteq>
            Throws (HttpsError Internal
              ''An internal error occurred. Check function logs for debug trace.'')"
proof (cases "auth request")
  case None
  then show ?thesis
    by (simp add: V3_unauth console_log_def console_error_def)
next
  case (Some a)
  show ?thesis
  proof (cases "destructure_prop (data request) ''userPrompt''")
    case None
    with Some show ?thesis
      by (simp add: V3_type_error console_log_def console_error_def)
  next
    case v: (Some v)
    with assms Some have "\<forall>s. v = JStr s \<longrightarrow> s = []" by simp
    then show ?thesis
      by (simp add: V3_invalid [OF Some v] console_log_def console_error_def)
  qed
qed

lemma V3_outcome:
  fixes client :: "'s model_client"
  shows
  "(model_calls (snd (callRpgAssistantV3 client request w)) = model_calls w
    \<and> client_state (snd (callRpgAssistantV3 client request w)) = client_state w
    \<and> flow_runs (snd (callRpgAssistantV3 client request w)) = flow_runs w
    \<and> (\<forall>v. fst (callRpgAssistantV3 client request w) \<noteq> Returns v)
    \<and> fst (callRpgAssistantV3 client request w) \<noteq>
         Throws (HttpsError Internal
           ''An internal error occurred. Check function logs for debug trace.''))
   \<or> (\<exists>args.
         model_calls (snd (callRpgAssistantV3 client request w)) = model_calls w
       \<and> client_state (snd (callRpgAssistantV3 client request w)) = client_state w
       \<and> flow_runs (snd (callRpgAssistantV3 client request w)) = flow_runs w @ [args]
       \<and> inputSchema args = None
       \<and> fst (callRpgAssistantV3 client request w) =
           Throws (HttpsError Internal
             ''An internal error occurred. Check function logs for debug trace.''))
   \<or> (\<exists>args input e s'.
         flow_runs (snd (callRpgAssistantV3 client request w)) = flow_runs w @ [args]
       \<and> inputSchema args = Some input
       \<and> model_calls (snd (callRpgAssistantV3 client request w)) =
           model_calls w @
             [\<lparr>prompt = fullPrompt_V3, history = fi_conversationHistory input,
               config = \<lparr>temperature = 7 / 10, maxOutputTokens = 500\<rparr>\<rparr>]
       \<and> client \<lparr>prompt = fullPrompt_V3, history = fi_conversationHistory input,
                  config = \<lparr>temperature = 7 / 10, maxOutputTokens = 500\<rparr>\<rparr> (client_state w)
           = (Inl e, s')
       \<and> client_state (snd (callRpgAssistantV3 client request w)) = s'
       \<and> fst (callRpgAssistantV3 client request w) =
           Throws (HttpsError Internal
             ''An internal error occurred. Check function logs for debug trace.''))
   \<or> (\<exists>args input r s'.
         flow_runs (snd (callRpgAssistantV3 client request w)) = flow_runs w @ [args]
       \<and> inputSchema args = Some input
       \<and> model_calls (snd (callRpgAssistantV3 client request w)) =
           model_calls w @
             [\<lparr>prompt = fullPrompt_V3, history = fi_conversationHistory input,
               config = \<lparr>temperature = 7 / 10, maxOutputTokens = 500\<rparr>\<rparr>]
       \<and> client \<lparr>prompt = fullPrompt_V3, history = fi_conversationHistory input,
                  config = \<lparr>temperature = 7 / 10, maxOutputTokens = 500\<rparr>\<rparr> (client_state w)
           = (Inr r, s')
       \<and> (\<forall>t. call_text r \<noteq> Inr (Data (JStr t)))
       \<and> client_state (snd (callRpgAssistantV3 client request w)) = s'
       \<and> fst (callRpgAssistantV3 client request w) =
           Throws (HttpsError Internal
             ''An internal error occurred. Check function logs for debug trace.''))
   \<or> (\<exists>args input r s' t.
         flow_runs (snd (callRpgAssistantV3 client request w)) = flow_runs w @ [args]
       \<and> inputSchema args = Some input
       \<and> model_calls (snd (callRpgAssistantV3 client request w)) =
           model_calls w @
             [\<lparr>prompt = fullPrompt_V3, history = fi_conversationHistory input,
               config = \<lparr>temperature = 7 / 10, maxOutputTokens = 500\<rparr>\<rparr>]
       \<and> client \<lparr>prompt = fullPrompt_V3, history = fi_conversationHistory input,
                  config = \<lparr>temperature = 7 / 10, maxOutputTokens = 500\<rparr>\<rparr> (client_state w)
           = (Inr r, s')
       \<and> call_text r = Inr (Data (JStr t))
       \<and> client_state (snd (callRpgAssistantV3 client request w)) = s'
       \<and> fst (callRpgAssistantV3 client request w) =
           Returns (JObj [(''response'', JStr ''[object Object]'')]))"
proof (cases rule: V3_cases [where request = request and client = client and w = w])
  case unauth
  then show ?thesis
    using V3_early_paths [of request client w] by (intro disjI1) simp
next
  case (type_error a)
  then show ?thesis
    using V3_early_paths [of request client w] by (intro disjI1) simp
next
  case (invalid a v)
  then show ?thesis
    using V3_early_paths [of request client w] by (intro disjI1) simp
next
  case (schema a p h)
  note V3_schema_path [OF schema, of client w]
  with schema(5) show ?thesis by (intro disjI2 disjI1 exI conjI) auto
next
  case (client_error a p h input e s')
  note V3_client_error_path [where client = client and w = w, OF client_error]
  with client_error(5,6) show ?thesis by (intro disjI2 disjI1 exI conjI) auto
next
  case (bad_output a p h input r s')
  note V3_bad_output_path [where client = client and w = w, OF bad_output]
  with bad_output(5,6,7) show ?thesis by (intro disjI2 disjI1 exI conjI) auto
next
  case (success a p h input r s' t)
  note V3_success_path [where client = client and w = w, OF success]
  with success(5,6,7) show ?thesis by (intro disjI2 exI conjI) auto
qed

lemma V3_accepted_calls:
  fixes client :: "'s model_client"
  assumes "auth request = Some a"
      and "destructure_prop (data request) ''userPrompt'' = Some (JStr p)"
      and "p \<noteq> []"
      and "destructure_prop (data request) ''conversationHistory'' = Some h"
      and "inputSchema \<lparr>arg_userPrompt = JStr p, arg_conversationHistory = h\<rparr> = Some input"
  shows "model_calls (snd (callRpgAssistantV3 client request w)) =
           model_calls w @
             [\<lparr>prompt = fullPrompt_V3, history = fi_conversationHistory input,
               config = \<lparr>temperature = 7 / 10, maxOutputTokens = 500\<rparr>\<rparr>]
       \<and> client_state (snd (callRpgAssistantV3 client request w)) =
           snd (client \<lparr>prompt = fullPrompt_V3, history = fi_conversationHistory input,
                        config = \<lparr>temperature = 7 / 10, maxOutputTokens = 500\<rparr>\<rparr> (client_state w))"
proof -
  let ?req = "\<lparr>prompt = fullPrompt_V3, history = fi_conversationHistory input,
                config = \<lparr>temperature = 7 / 10, maxOutputTokens = 500\<rparr>\<rparr>"
  obtain res s' where c: "client ?req (client_state w) = (res, s')"
    by (cases "client ?req (client_state w)") auto
  show ?thesis
  proof (cases res)
    case (Inl e)
    from V3_client_error_path(2,3) [where client = client and w = w, OF assms c [unfolded Inl]]
    show ?thesis by (simp add: c)
  next
    case (Inr r)
    show ?thesis
    proof (cases "\<exists>t. call_text r = Inr (Data (JStr t))")
      case False
      then have f: "\<forall>t. call_text r \<noteq> Inr (Data (JStr t))"
        by (simp add: outputSchema_None)
      from V3_bad_output_path(2,3) [where client = client and w = w, OF assms c [unfolded Inr] f]
      show ?thesis by (simp add: c)
    next
      case True
      then obtain t where t: "call_text r = Inr (Data (JStr t))" by blast
      from V3_success_path(2,3) [where client = client and w = w, OF assms c [unfolded Inr] t]
      show ?thesis by (simp add: c)
    qed
  qed
qed

lemma V2_early_paths:
  assumes "auth request = None
           \<or> destructure_prop (data request) ''userPrompt'' = None
           \<or> (\<exists>v. destructure_prop (data request) ''userPrompt'' = Some v
                  \<and> (\<forall>s. v = JStr s \<longrightarrow> s = []))"
  shows "model_calls (snd (callRpgAssistantV2 client request w)) = model_calls w
       \<and> flow_runs (snd (callRpgAssistantV2 client request w)) = flow_runs w
       \<and> client_state (snd (callRpgAssistantV2 client request w)) = client_state w
       \<and> (\<forall>v. fst (callRpgAssistantV2 client request w) \<noteq> Returns v)
       \<and> fst (callRpgAssistantV2 client request w) \<noteq>
            Throws (HttpsError Internal
              ''An internal error occurred while processing your request. Check the function logs for details.'')"
proof (cases "auth request")
  case None
  then show ?thesis
    by (simp add: V2_unauth console_log_def console_error_def)
next
  case (Some a)
  show ?thesis
  proof (cases "destructure_prop (data request) ''userPrompt''")
    case None
    with Some show ?thesis
      by (simp add: V2_type_error console_log_def console_error_def)
  next
    case v: (Some v)
    with assms Some have "\<forall>s. v = JStr s \<longrightarrow> s = []" by simp
    then show ?thesis
      by (simp add: V2_invalid [OF Some v] console_log_def console_error_def)
  qed
qed

lemma V2_outcome:
  fixes client :: "'s model_client"
  shows
  "(model_calls (snd (callRpgAssistantV2 client request w)) = model_calls w
    \<and> client_state (snd (callRpgAssistantV2 client request w)) = client_state w
    \<and> flow_runs (snd (callRpgAssistantV2 client request w)) = flow_runs w
    \<and> (\<forall>v. fst (callRpgAssistantV2 client request w) \<noteq> Returns v)
    \<and> fst (callRpgAssistantV2 client request w) \<noteq>
         Throws (HttpsError Internal
           ''An internal error occurred while processing your request. Check the function logs for details.''))
   \<or> (\<exists>args.
         model_calls (snd (callRpgAssistantV2 client request w)) = model_calls w
       \<and> client_state (snd (callRpgAssistantV2 client request w)) = client_state w
       \<and> flow_runs (snd (callRpgAssistantV2 client request w)) = flow_runs w @ [args]
       \<and> inputSchema args = None
       \<and> fst (callRpgAssistantV2 client request w) =
           Throws (HttpsError Internal
             ''An internal error occurred while processing your request. Check the function logs for details.''))
   \<or> (\<exists>args input e s'.
         flow_runs (snd (callRpgAssistantV2 client request w)) = flow_runs w @ [args]
       \<and> inputSchema args = Some input
       \<and> model_calls (snd (callRpgAssistantV2 client request w)) =
           model_calls w @
             [\<lparr>prompt = fullPrompt_V2 (fi_userPrompt input), history = fi_conversationHistory input,
               config = \<lparr>temperature = 7 / 10, maxOutputTokens = 500\<rparr>\<rparr>]
       \<and> client \<lparr>prompt = fullPrompt_V2 (fi_userPrompt input), history = fi_conversationHistory input,
                  config = \<lparr>temperature = 7 / 10, maxOutputTokens = 500\<rparr>\<rparr> (client_state w)
           = (Inl e, s')
       \<and> client_state (snd (callRpgAssistantV2 client request w)) = s'
       \<and> fst (callRpgAssistantV2 client request w) =
           Throws (HttpsError Internal
             ''An internal error occurred while processing your request. Check the function logs for details.''))
   \<or> (\<exists>args input r s'.
         flow_runs (snd (callRpgAssistantV2 client request w)) = flow_runs w @ [args]
       \<and> inputSchema args = Some input
       \<and> model_calls (snd (callRpgAssistantV2 client request w)) =
           model_calls w @
             [\<lparr>prompt = fullPrompt_V2 (fi_userPrompt input), history = fi_conversationHistory input,
               config = \<lparr>temperature = 7 / 10, maxOutputTokens = 500\<rparr>\<rparr>]
       \<and> client \<lparr>prompt = fullPrompt_V2 (fi_userPrompt input), history = fi_conversationHistory input,
                  config = \<lparr>temperature = 7 / 10, maxOutputTokens = 500\<rparr>\<rparr> (client_state w)
           = (Inr r, s')
       \<and> (outputSchema (resp_text r) = None)
       \<and> client_state (snd (callRpgAssistantV2 client request w)) = s'
       \<and> fst (callRpgAssistantV2 client request w) =
           Throws (HttpsError Internal
             ''An internal error occurred while processing your request. Check the function logs for details.''))
   \<or> (\<exists>args input r s' t.
         flow_runs (snd (callRpgAssistantV2 client request w)) = flow_runs w @ [args]
       \<and> inputSchema args = Some input
       \<and> model_calls (snd (callRpgAssistantV2 client request w)) =
           model_calls w @
             [\<lparr>prompt = fullPrompt_V2 (fi_userPrompt input), history = fi_conversationHistory input,
               config = \<lparr>temperature = 7 / 10, maxOutputTokens = 500\<rparr>\<rparr>]
       \<and> client \<lparr>prompt = fullPrompt_V2 (fi_userPrompt input), history = fi_conversationHistory input,
                  config = \<lparr>temperature = 7 / 10, maxOutputTokens = 500\<rparr>\<rparr> (client_state w)
           = (Inr r, s')
       \<and> resp_text r = Data (JStr t)
       \<and> client_state (snd (callRpgAssistantV2 client request w)) = s'
       \<and> fst (callRpgAssistantV2 client request w) =
           Returns (JObj [(''response'',
             JObj (ActionResult_fields
                     \<lparr>result = t, telemetry = tracer w (length (flow_runs w))\<rparr>))]))"
proof (cases rule: V2_cases [where request = request and client = client and w = w])
  case unauth
  then show ?thesis
    using V2_early_paths [of request client w] by (intro disjI1) simp
next
  case (type_error a)
  then show ?thesis
    using V2_early_paths [of request client w] by (intro disjI1) simp
next
  case (invalid a v)
  then show ?thesis
    using V2_early_paths [of request client w] by (intro disjI1) simp
next
  case (schema a p h)
  note V2_schema_path [OF schema, of client w]
  with schema(5) show ?thesis by (intro disjI2 disjI1 exI conjI) auto
next
  case (client_error a p h input e s')
  note V2_client_error_path [where client = client and w = w, OF client_error]
  with client_error(5,6) show ?thesis by (intro disjI2 disjI1 exI conjI) auto
next
  case (bad_output a p h input r s')
  note V2_bad_output_path [where client = client and w = w, OF bad_output]
  with bad_output(5,6,7) show ?thesis by (intro disjI2 disjI1 exI conjI) auto
next
  case (success a p h input r s' t)
  note V2_success_path [where client = client and w = w, OF success]
  with success(5,6,7) show ?thesis by (intro disjI2 exI conjI) auto
qed

lemma V2_accepted_calls:
  fixes client :: "'s model_client"
  assumes "auth request = Some a"
      and "destructure_prop (data request) ''userPrompt'' = Some (JStr p)"
      and "p \<noteq> []"
      and "destructure_prop (data request) ''conversationHistory'' = Some h"
      and "inputSchema \<lparr>arg_userPrompt = JStr p, arg_conversationHistory = h\<rparr> = Some input"
  shows "model_calls (snd (callRpgAssistantV2 client request w)) =
           model_calls w @
             [\<lparr>prompt = fullPrompt_V2 (fi_userPrompt input), history = fi_conversationHistory input,
               config = \<lparr>temperature = 7 / 10, maxOutputTokens = 500\<rparr>\<rparr>]
       \<and> client_state (snd (callRpgAssistantV2 client request w)) =
           snd (client \<lparr>prompt = fullPrompt_V2 (fi_userPrompt input), history = fi_conversationHistory input,
                        config = \<lparr>temperature = 7 / 10, maxOutputTokens = 500\<rparr>\<rparr> (client_state w))"
proof -
  let ?req = "\<lparr>prompt = fullPrompt_V2 (fi_userPrompt input), history = fi_conversationHistory input,
                config = \<lparr>temperature = 7 / 10, maxOutputTokens = 500\<rparr>\<rparr>"
  obtain res s' where c: "client ?req (client_state w) = (res, s')"
    by (cases "client ?req (client_state w)") auto
  show ?thesis
  proof (cases res)
    case (Inl e)
    from V2_client_error_path(2,3) [where client = client and w = w, OF assms c [unfolded Inl]]
    show ?thesis by (simp add: c)
  next
    case (Inr r)
    show ?thesis
    proof (cases "\<exists>t. resp_text r = Data (JStr t)")
      case False
      then have f: "outputSchema (resp_text r) = None"
        by (simp add: outputSchema_None)
      from V2_bad_output_path(2,3) [where client = client and w = w, OF assms c [unfolded Inr] f]
      show ?thesis by (simp add: c)
    next
      case True
      then obtain t where t: "resp_text r = Data (JStr t)" by blast
      from V2_success_path(2,3) [where client = client and w = w, OF assms c [unfolded Inr] t]
      show ?thesis by (simp add: c)
    qed
  qed
qed

section \<open>Properties of the callable endpoint and the flow\<close>

text \<open>The definitions unfolded to evaluate a call on the sample data.\<close>

lemmas eval_defs = callRpgAssistantV3_def callRpgAssistantV2_def flow_run_def inputSchema_def
  outputSchema_def call_text_def template_literal_of_object_def ActionResult_fields_def
  turn_schema_def part_schema_def rpgAssistantFlow_V3_def rpgAssistantFlow_V2_def
  ai_generate_def console_log_def console_error_def Let_def empty_world_def sample_tracer_def
  echo_client_def flaky_client_def failing_client_def structured_client_def method_client_def
  alice_def bob_def turn_A_def turn_B_def turn_C_def
  hello_data_def history_data_def empty_prompt_data_def bad_history_data_def

text \<open>
  C2. A call with no authentication context ends with the \<open>unauthenticated\<close> error,
  whatever its payload (the payload is not even destructured), and neither the flow
  nor the model client is invoked: both traces are as they were. This holds for both
  handlers.
\<close>

theorem unauthenticated_call_is_rejected:
  assumes "auth request = None"
  shows "fst (callRpgAssistantV3 client request w) =
           Throws (HttpsError Unauthenticated ''The function requires authentication.'')
       \<and> flow_runs (snd (callRpgAssistantV3 client request w)) = flow_runs w
       \<and> model_calls (snd (callRpgAssistantV3 client request w)) = model_calls w
       \<and> fst (callRpgAssistantV2 client request w) =
           Throws (HttpsError Unauthenticated ''The AI assistant requires authentication.'')
       \<and> flow_runs (snd (callRpgAssistantV2 client request w)) = flow_runs w
       \<and> model_calls (snd (callRpgAssistantV2 client request w)) = model_calls w"
  by (simp add: V3_unauth [OF assms] V2_unauth [OF assms] console_log_def console_error_def)

theorem unauthenticated_call_is_rejected_witness:
  "auth \<lparr>auth = None, data = hello_data\<rparr> = None
   \<and> fst (callRpgAssistantV3 echo_client \<lparr>auth = None, data = hello_data\<rparr> (empty_world ())) =
         Throws (HttpsError Unauthenticated ''The function requires authentication.'')
   \<and> flow_runs (snd (callRpgAssistantV3 echo_client \<lparr>auth = None, data = hello_data\<rparr>
         (empty_world ()))) = []
   \<and> model_calls (snd (callRpgAssistantV3 echo_client \<lparr>auth = None, data = hello_data\<rparr>
         (empty_world ()))) = []
   \<and> fst (callRpgAssistantV2 echo_client \<lparr>auth = None, data = hello_data\<rparr> (empty_world ())) =
         Throws (HttpsError Unauthenticated ''The AI assistant requires authentication.'')
   \<and> flow_runs (snd (callRpgAssistantV2 echo_client \<lparr>auth = None, data = hello_data\<rparr>
         (empty_world ()))) = []
   \<and> model_calls (snd (callRpgAssistantV2 echo_client \<lparr>auth = None, data = hello_data\<rparr>
         (empty_world ()))) = []"
proof -
  have h: "auth \<lparr>auth = None, data = hello_data\<rparr> = None"
    by simp
  from unauthenticated_call_is_rejected [OF h, of echo_client "empty_world ()"] h
  show ?thesis by (simp add: empty_world_def)
qed





text \<open>
  C4. Whenever the flow fails on a call, the handler throws \<^verbatim>\<open>HttpsError('internal', ...)\<close>
  with one fixed message. The flow fails in three ways: the model client, invoked with
  the request \<open>req\<close>, throws some value \<open>e\<close>; or the client answers with a response \<open>r\<close>
  and the flow fails on it (the call of its text throws, or its text does not conform
  to the output schema); or the arguments of the run do not conform to the input
  schema. In all three the thrown \<^verbatim>\<open>HttpsError\<close> is the same constant, in which
  neither \<open>e\<close> and its message nor \<open>r\<close> occurs.
\<close>

theorem flow_failure_is_generic_internal_error:
  fixes client :: "'s model_client"
  shows
  "(\<forall>req e s'.
       model_calls (snd (callRpgAssistantV3 client request w)) = model_calls w @ [req]
       \<and> client req (client_state w) = (Inl e, s')
       \<longrightarrow> fst (callRpgAssistantV3 client request w) = Throws (HttpsError Internal ''An internal error occurred. Check function logs for debug trace.''))
   \<and> (\<forall>req r s'.
       model_calls (snd (callRpgAssistantV3 client request w)) = model_calls w @ [req]
       \<and> client req (client_state w) = (Inr r, s')
       \<and> (\<forall>t. call_text r \<noteq> Inr (Data (JStr t)))
       \<longrightarrow> fst (callRpgAssistantV3 client request w) = Throws (HttpsError Internal ''An internal error occurred. Check function logs for debug trace.''))
   \<and> (\<forall>args.
       flow_runs (snd (callRpgAssistantV3 client request w)) = flow_runs w @ [args]
       \<and> inputSchema args = None
       \<longrightarrow> fst (callRpgAssistantV3 client request w) = Throws (HttpsError Internal ''An internal error occurred. Check function logs for debug trace.''))
   \<and> (\<forall>req e s'.
       model_calls (snd (callRpgAssistantV2 client request w)) = model_calls w @ [req]
       \<and> client req (client_state w) = (Inl e, s')
       \<longrightarrow> fst (callRpgAssistantV2 client request w) = Throws (HttpsError Internal ''An internal error occurred while processing your request. Check the function logs for details.''))
   \<and> (\<forall>req r s'.
       model_calls (snd (callRpgAssistantV2 client request w)) = model_calls w @ [req]
       \<and> client req (client_state w) = (Inr r, s')
       \<and> outputSchema (resp_text r) = None
       \<longrightarrow> fst (callRpgAssistantV2 client request w) = Throws (HttpsError Internal ''An internal error occurred while processing your request. Check the function logs for details.''))
   \<and> (\<forall>args.
       flow_runs (snd (callRpgAssistantV2 client request w)) = flow_runs w @ [args]
       \<and> inputSchema args = None
       \<longrightarrow> fst (callRpgAssistantV2 client request w) = Throws (HttpsError Internal ''An internal error occurred while processing your request. Check the function logs for details.''))"
proof (intro conjI allI impI)
  fix req e s'
  assume "model_calls (snd (callRpgAssistantV3 client request w)) = model_calls w @ [req]
          \<and> client req (client_state w) = (Inl e, s')"
  then show "fst (callRpgAssistantV3 client request w) = Throws (HttpsError Internal ''An internal error occurred. Check function logs for debug trace.'')"
    using V3_outcome [of client request w] by auto
next
  fix req r s'
  assume "model_calls (snd (callRpgAssistantV3 client request w)) = model_calls w @ [req]
          \<and> client req (client_state w) = (Inr r, s')
          \<and> (\<forall>t. call_text r \<noteq> Inr (Data (JStr t)))"
  then show "fst (callRpgAssistantV3 client request w) = Throws (HttpsError Internal ''An internal error occurred. Check function logs for debug trace.'')"
    using V3_outcome [of client request w] by (auto simp: outputSchema_def)
next
  fix args
  assume "flow_runs (snd (callRpgAssistantV3 client request w)) = flow_runs w @ [args]
          \<and> inputSchema args = None"
  then show "fst (callRpgAssistantV3 client request w) = Throws (HttpsError Internal ''An internal error occurred. Check function logs for debug trace.'')"
    using V3_outcome [of client request w] by auto
next
  fix req e s'
  assume "model_calls (snd (callRpgAssistantV2 client request w)) = model_calls w @ [req]
          \<and> client req (client_state w) = (Inl e, s')"
  then show "fst (callRpgAssistantV2 client request w) = Throws (HttpsError Internal ''An internal error occurred while processing your request. Check the function logs for details.'')"
    using V2_outcome [of client request w] by auto
next
  fix req r s'
  assume "model_calls (snd (callRpgAssistantV2 client request w)) = model_calls w @ [req]
          \<and> client req (client_state w) = (Inr r, s')
          \<and> outputSchema (resp_text r) = None"
  then show "fst (callRpgAssistantV2 client request w) = Throws (HttpsError Internal ''An internal error occurred while processing your request. Check the function logs for details.'')"
    using V2_outcome [of client request w] by (auto simp: outputSchema_def)
next
  fix args
  assume "flow_runs (snd (callRpgAssistantV2 client request w)) = flow_runs w @ [args]
          \<and> inputSchema args = None"
  then show "fst (callRpgAssistantV2 client request w) = Throws (HttpsError Internal ''An internal error occurred while processing your request. Check the function logs for details.'')"
    using V2_outcome [of client request w] by auto
qed

theorem flow_failure_is_generic_internal_error_witness:
  "model_calls (snd (callRpgAssistantV3 failing_client
       \<lparr>auth = Some alice, data = hello_data\<rparr> (empty_world ()))) =
     model_calls (empty_world ()) @ [\<lparr>prompt = fullPrompt_V3, history = None, config = \<lparr>temperature = 7 / 10, maxOutputTokens = 500\<rparr>\<rparr>]
   \<and> failing_client \<lparr>prompt = fullPrompt_V3, history = None, config = \<lparr>temperature = 7 / 10, maxOutputTokens = 500\<rparr>\<rparr>
         (client_state (empty_world ())) = (Inl (Error_obj ''API key not valid''), ())
   \<and> fst (callRpgAssistantV3 failing_client
         \<lparr>auth = Some alice, data = hello_data\<rparr> (empty_world ())) =
       Throws (HttpsError Internal ''An internal error occurred. Check function logs for debug trace.'')
   \<and> model_calls (snd (callRpgAssistantV3 structured_client
         \<lparr>auth = Some alice, data = hello_data\<rparr> (empty_world ()))) =
       model_calls (empty_world ()) @ [\<lparr>prompt = fullPrompt_V3, history = None, config = \<lparr>temperature = 7 / 10, maxOutputTokens = 500\<rparr>\<rparr>]
   \<and> structured_client \<lparr>prompt = fullPrompt_V3, history = None, config = \<lparr>temperature = 7 / 10, maxOutputTokens = 500\<rparr>\<rparr>
         (client_state (empty_world ())) =
       (Inr \<lparr>resp_text = Data (JObj [(''answer'', JStr ''Meridian'')]), resp_metadata = JNull\<rparr>, ())
   \<and> (\<forall>t. call_text \<lparr>resp_text = Data (JObj [(''answer'', JStr ''Meridian'')]), resp_metadata = JNull\<rparr> \<noteq> Inr (Data (JStr t)))
   \<and> fst (callRpgAssistantV3 structured_client
         \<lparr>auth = Some alice, data = hello_data\<rparr> (empty_world ())) =
       Throws (HttpsError Internal ''An internal error occurred. Check function logs for debug trace.'')
   \<and> flow_runs (snd (callRpgAssistantV3 failing_client
         \<lparr>auth = Some alice, data = bad_history_data\<rparr> (empty_world ()))) =
       flow_runs (empty_world ()) @
         [\<lparr>arg_userPrompt = JStr ''hello'',
           arg_conversationHistory = JStr ''earlier we spoke''\<rparr>]
   \<and> inputSchema \<lparr>arg_userPrompt = JStr ''hello'',
                    arg_conversationHistory = JStr ''earlier we spoke''\<rparr> = None
   \<and> fst (callRpgAssistantV3 failing_client
         \<lparr>auth = Some alice, data = bad_history_data\<rparr> (empty_world ())) =
       Throws (HttpsError Internal ''An internal error occurred. Check function logs for debug trace.'')
   \<and> model_calls (snd (callRpgAssistantV2 failing_client
       \<lparr>auth = Some alice, data = hello_data\<rparr> (empty_world ()))) =
     model_calls (empty_world ()) @ [\<lparr>prompt = fullPrompt_V2 ''hello'', history = None, config = \<lparr>temperature = 7 / 10, maxOutputTokens = 500\<rparr>\<rparr>]
   \<and> failing_client \<lparr>prompt = fullPrompt_V2 ''hello'', history = None, config = \<lparr>temperature = 7 / 10, maxOutputTokens = 500\<rparr>\<rparr>
         (client_state (empty_world ())) = (Inl (Error_obj ''API key not valid''), ())
   \<and> fst (callRpgAssistantV2 failing_client
         \<lparr>auth = Some alice, data = hello_data\<rparr> (empty_world ())) =
       Throws (HttpsError Internal ''An internal error occurred while processing your request. Check the function logs for details.'')
   \<and> model_calls (snd (callRpgAssistantV2 structured_client
         \<lparr>auth = Some alice, data = hello_data\<rparr> (empty_world ()))) =
       model_calls (empty_world ()) @ [\<lparr>prompt = fullPrompt_V2 ''hello'', history = None, config = \<lparr>temperature = 7 / 10, maxOutputTokens = 500\<rparr>\<rparr>]
   \<and> structured_client \<lparr>prompt = fullPrompt_V2 ''hello'', history = None, config = \<lparr>temperature = 7 / 10, maxOutputTokens = 500\<rparr>\<rparr>
         (client_state (empty_world ())) =
       (Inr \<lparr>resp_text = Data (JObj [(''answer'', JStr ''Meridian'')]), resp_metadata = JNull\<rparr>, ())
   \<and> outputSchema (resp_text \<lparr>resp_text = Data (JObj [(''answer'', JStr ''Meridian'')]), resp_metadata = JNull\<rparr>) = None
   \<and> fst (callRpgAssistantV2 structured_client
         \<lparr>auth = Some alice, data = hello_data\<rparr> (empty_world ())) =
       Throws (HttpsError Internal ''An internal error occurred while processing your request. Check the function logs for details.'')
   \<and> flow_runs (snd (callRpgAssistantV2 failing_client
         \<lparr>auth = Some alice, data = bad_history_data\<rparr> (empty_world ()))) =
       flow_runs (empty_world ()) @
         [\<lparr>arg_userPrompt = JStr ''hello'',
           arg_conversationHistory = JStr ''earlier we spoke''\<rparr>]
   \<and> inputSchema \<lparr>arg_userPrompt = JStr ''hello'',
                    arg_conversationHistory = JStr ''earlier we spoke''\<rparr> = None
   \<and> fst (callRpgAssistantV2 failing_client
         \<lparr>auth = Some alice, data = bad_history_data\<rparr> (empty_world ())) =
       Throws (HttpsError Internal ''An internal error occurred while processing your request. Check the function logs for details.'')"
proof -
  let ?hello = "\<lparr>auth = Some alice, data = hello_data\<rparr>"
  let ?bad = "\<lparr>auth = Some alice, data = bad_history_data\<rparr>"
  let ?w = "empty_world ()"
  let ?args = "\<lparr>arg_userPrompt = JStr ''hello'',
                 arg_conversationHistory = JStr ''earlier we spoke''\<rparr>"
  let ?rich = "\<lparr>resp_text = Data (JObj [(''answer'', JStr ''Meridian'')]), resp_metadata = JNull\<rparr>"
  note main = flow_failure_is_generic_internal_error
  have a3: "model_calls (snd (callRpgAssistantV3 failing_client ?hello ?w)) =
              model_calls ?w @ [\<lparr>prompt = fullPrompt_V3, history = None, config = \<lparr>temperature = 7 / 10, maxOutputTokens = 500\<rparr>\<rparr>]
            \<and> failing_client \<lparr>prompt = fullPrompt_V3, history = None, config = \<lparr>temperature = 7 / 10, maxOutputTokens = 500\<rparr>\<rparr> (client_state ?w) = (Inl (Error_obj ''API key not valid''), ())"
    by (simp add: eval_defs)
  have o3: "model_calls (snd (callRpgAssistantV3 structured_client ?hello ?w)) =
              model_calls ?w @ [\<lparr>prompt = fullPrompt_V3, history = None, config = \<lparr>temperature = 7 / 10, maxOutputTokens = 500\<rparr>\<rparr>]
            \<and> structured_client \<lparr>prompt = fullPrompt_V3, history = None, config = \<lparr>temperature = 7 / 10, maxOutputTokens = 500\<rparr>\<rparr> (client_state ?w) = (Inr ?rich, ())
            \<and> (\<forall>t. call_text ?rich \<noteq> Inr (Data (JStr t)))"
    by (simp add: eval_defs)
  have b3: "flow_runs (snd (callRpgAssistantV3 failing_client ?bad ?w)) = flow_runs ?w @ [?args]
            \<and> inputSchema ?args = None"
    by (simp add: eval_defs)
  have c3: "fst (callRpgAssistantV3 failing_client ?hello ?w) = Throws (HttpsError Internal ''An internal error occurred. Check function logs for debug trace.'')"
    using main [where client = failing_client and request = ?hello and w = ?w] a3 by blast
  have p3: "fst (callRpgAssistantV3 structured_client ?hello ?w) = Throws (HttpsError Internal ''An internal error occurred. Check function logs for debug trace.'')"
    using main [where client = structured_client and request = ?hello and w = ?w] o3 by blast
  have d3: "fst (callRpgAssistantV3 failing_client ?bad ?w) = Throws (HttpsError Internal ''An internal error occurred. Check function logs for debug trace.'')"
    using main [where client = failing_client and request = ?bad and w = ?w] b3 by blast
  have a2: "model_calls (snd (callRpgAssistantV2 failing_client ?hello ?w)) =
              model_calls ?w @ [\<lparr>prompt = fullPrompt_V2 ''hello'', history = None, config = \<lparr>temperature = 7 / 10, maxOutputTokens = 500\<rparr>\<rparr>]
            \<and> failing_client \<lparr>prompt = fullPrompt_V2 ''hello'', history = None, config = \<lparr>temperature = 7 / 10, maxOutputTokens = 500\<rparr>\<rparr> (client_state ?w) = (Inl (Error_obj ''API key not valid''), ())"
    by (simp add: eval_defs)
  have o2: "model_calls (snd (callRpgAssistantV2 structured_client ?hello ?w)) =
              model_calls ?w @ [\<lparr>prompt = fullPrompt_V2 ''hello'', history = None, config = \<lparr>temperature = 7 / 10, maxOutputTokens = 500\<rparr>\<rparr>]
            \<and> structured_client \<lparr>prompt = fullPrompt_V2 ''hello'', history = None, config = \<lparr>temperature = 7 / 10, maxOutputTokens = 500\<rparr>\<rparr> (client_state ?w) = (Inr ?rich, ())
            \<and> outputSchema (resp_text ?rich) = None"
    by (simp add: eval_defs)
  have b2: "flow_runs (snd (callRpgAssistantV2 failing_client ?bad ?w)) = flow_runs ?w @ [?args]
            \<and> inputSchema ?args = None"
    by (simp add: eval_defs)
  have c2: "fst (callRpgAssistantV2 failing_client ?hello ?w) = Throws (HttpsError Internal ''An internal error occurred while processing your request. Check the function logs for details.'')"
    using main [where client = failing_client and request = ?hello and w = ?w] a2 by blast
  have p2: "fst (callRpgAssistantV2 structured_client ?hello ?w) = Throws (HttpsError Internal ''An internal error occurred while processing your request. Check the function logs for details.'')"
    using main [where client = structured_client and request = ?hello and w = ?w] o2 by blast
  have d2: "fst (callRpgAssistantV2 failing_client ?bad ?w) = Throws (HttpsError Internal ''An internal error occurred while processing your request. Check the function logs for details.'')"
    using main [where client = failing_client and request = ?bad and w = ?w] b2 by blast
  from a3 o3 b3 c3 p3 d3 a2 o2 b2 c2 p2 d2 show ?thesis by simp
qed

text \<open>
  C5. What the two handlers return differs. When \<^verbatim>\<open>callRpgAssistantV3\<close> returns, the
  \<^verbatim>\<open>response\<close> of the returned object is a string: the template literal makes it one.
  When \<^verbatim>\<open>callRpgAssistantV2\<close> returns, the \<^verbatim>\<open>response\<close> is not a string but a nested object,
  the \<^verbatim>\<open>{ result, telemetry }\<close> that the run of the flow resolved to, passed on as it is.
\<close>

theorem V2_envelope_holds_a_nested_object:
  fixes client :: "'s model_client"
  shows
  "(\<forall>v. fst (callRpgAssistantV3 client request w) = Returns v
        \<longrightarrow> (\<exists>s. v = JObj [(''response'', JStr s)]))
   \<and> (\<forall>v. fst (callRpgAssistantV2 client request w) = Returns v
        \<longrightarrow> (\<exists>t tel. v = JObj [(''response'',
                                   JObj [(''result'', JStr t), (''telemetry'', tel)])]))"
proof (intro conjI allI impI)
  fix v
  assume "fst (callRpgAssistantV3 client request w) = Returns v"
  then show "\<exists>s. v = JObj [(''response'', JStr s)]"
    using V3_outcome [of client request w] by auto
next
  fix v
  assume "fst (callRpgAssistantV2 client request w) = Returns v"
  then show "\<exists>t tel. v = JObj [(''response'',
                                 JObj [(''result'', JStr t), (''telemetry'', tel)])]"
    using V2_outcome [of client request w] by (auto simp: ActionResult_fields_def)
qed

theorem V2_envelope_holds_a_nested_object_witness:
  "fst (callRpgAssistantV3 method_client \<lparr>auth = Some alice, data = hello_data\<rparr> (empty_world ()))
     = Returns (JObj [(''response'', JStr ''[object Object]'')])
   \<and> (\<exists>s. JObj [(''response'', JStr ''[object Object]'')] = JObj [(''response'', JStr s)])
   \<and> fst (callRpgAssistantV2 echo_client \<lparr>auth = Some alice, data = hello_data\<rparr> (empty_world ()))
     = Returns (JObj [(''response'',
         JObj [(''result'', JStr (fullPrompt_V2 ''hello'')),
               (''telemetry'', JObj [(''traceId'', JStr ''trace-7f3a''),
                                     (''spanId'', JStr ''span-01'')])])])
   \<and> (\<exists>t tel. JObj [(''response'',
         JObj [(''result'', JStr (fullPrompt_V2 ''hello'')),
               (''telemetry'', JObj [(''traceId'', JStr ''trace-7f3a''),
                                     (''spanId'', JStr ''span-01'')])])]
        = JObj [(''response'', JObj [(''result'', JStr t), (''telemetry'', tel)])])"
proof -
  let ?hello = "\<lparr>auth = Some alice, data = hello_data\<rparr>"
  let ?w = "empty_world ()"
  have r3: "fst (callRpgAssistantV3 method_client ?hello ?w)
              = Returns (JObj [(''response'', JStr ''[object Object]'')])"
    by (simp add: eval_defs)
  have r2: "fst (callRpgAssistantV2 echo_client ?hello ?w)
     = Returns (JObj [(''response'',
         JObj [(''result'', JStr (fullPrompt_V2 ''hello'')),
               (''telemetry'', JObj [(''traceId'', JStr ''trace-7f3a''),
                                     (''spanId'', JStr ''span-01'')])])])"
    by (simp add: eval_defs)
  from V2_envelope_holds_a_nested_object
         [where client = method_client and request = ?hello and w = ?w] r3
  have e3: "\<exists>s. JObj [(''response'', JStr ''[object Object]'')] = JObj [(''response'', JStr s)]"
    by blast
  from V2_envelope_holds_a_nested_object
         [where client = echo_client and request = ?hello and w = ?w] r2
  have e2: "\<exists>t tel. JObj [(''response'',
         JObj [(''result'', JStr (fullPrompt_V2 ''hello'')),
               (''telemetry'', JObj [(''traceId'', JStr ''trace-7f3a''),
                                     (''spanId'', JStr ''span-01'')])])]
        = JObj [(''response'', JObj [(''result'', JStr t), (''telemetry'', tel)])]"
    by blast
  show ?thesis
    by (intro conjI) (rule r3 e3 r2 e2)+
qed

text \<open>
  C6. The returned object does not hold the text of the model. When
  \<^verbatim>\<open>callRpgAssistantV3\<close> returns, its \<^verbatim>\<open>response\<close> is the string \<^verbatim>\<open>[object Object]\<close>, whatever the
  model answered; and when the \<^verbatim>\<open>text\<close> of the model's response is a data member, as the
  client library has it, the call of it throws and the handler does not return at
  all. When \<^verbatim>\<open>callRpgAssistantV2\<close> returns, the model answered with the string \<open>t\<close>, and the
  \<^verbatim>\<open>response\<close> is not \<open>t\<close> but the object \<^verbatim>\<open>{ result: t, telemetry }\<close>.
\<close>

theorem response_is_not_the_model_text:
  fixes client :: "'s model_client"
  shows
  "(\<forall>v. fst (callRpgAssistantV3 client request w) = Returns v
        \<longrightarrow> v = JObj [(''response'', JStr ''[object Object]'')])
   \<and> (\<forall>req r s' x.
        model_calls (snd (callRpgAssistantV3 client request w)) = model_calls w @ [req]
        \<and> client req (client_state w) = (Inr r, s')
        \<and> resp_text r = Data x
        \<longrightarrow> fst (callRpgAssistantV3 client request w) = Throws (HttpsError Internal ''An internal error occurred. Check function logs for debug trace.''))
   \<and> (\<forall>v. fst (callRpgAssistantV2 client request w) = Returns v
        \<longrightarrow> (\<exists>req r s' t.
               model_calls (snd (callRpgAssistantV2 client request w)) = model_calls w @ [req]
               \<and> client req (client_state w) = (Inr r, s')
               \<and> resp_text r = Data (JStr t)
               \<and> v = JObj [(''response'',
                            JObj (ActionResult_fields
                              \<lparr>result = t, telemetry = tracer w (length (flow_runs w))\<rparr>))]))"
proof (intro conjI allI impI)
  fix v
  assume "fst (callRpgAssistantV3 client request w) = Returns v"
  then show "v = JObj [(''response'', JStr ''[object Object]'')]"
    using V3_outcome [of client request w] by auto
next
  fix req r s' x
  assume "model_calls (snd (callRpgAssistantV3 client request w)) = model_calls w @ [req]
        \<and> client req (client_state w) = (Inr r, s')
        \<and> resp_text r = Data x"
  then show "fst (callRpgAssistantV3 client request w) = Throws (HttpsError Internal ''An internal error occurred. Check function logs for debug trace.'')"
    using V3_outcome [of client request w] by (auto simp: call_text_def)
next
  fix v
  assume "fst (callRpgAssistantV2 client request w) = Returns v"
  then show "\<exists>req r s' t.
               model_calls (snd (callRpgAssistantV2 client request w)) = model_calls w @ [req]
               \<and> client req (client_state w) = (Inr r, s')
               \<and> resp_text r = Data (JStr t)
               \<and> v = JObj [(''response'',
                            JObj (ActionResult_fields
                              \<lparr>result = t, telemetry = tracer w (length (flow_runs w))\<rparr>))]"
    using V2_outcome [of client request w] by auto
qed

theorem response_is_not_the_model_text_witness:
  "fst (callRpgAssistantV3 method_client \<lparr>auth = Some alice, data = hello_data\<rparr> (empty_world ()))
     = Returns (JObj [(''response'', JStr ''[object Object]'')])
   \<and> method_client \<lparr>prompt = fullPrompt_V3, history = None, config = \<lparr>temperature = 7 / 10, maxOutputTokens = 500\<rparr>\<rparr> ()
     = (Inr \<lparr>resp_text = Method (JStr ''The capital is Meridian.''), resp_metadata = JNull\<rparr>, ())
   \<and> model_calls (snd (callRpgAssistantV3 echo_client
         \<lparr>auth = Some alice, data = hello_data\<rparr> (empty_world ())))
     = model_calls (empty_world ()) @
         [\<lparr>prompt = fullPrompt_V3, history = None, config = \<lparr>temperature = 7 / 10, maxOutputTokens = 500\<rparr>\<rparr>]
   \<and> fst (echo_client \<lparr>prompt = fullPrompt_V3, history = None, config = \<lparr>temperature = 7 / 10, maxOutputTokens = 500\<rparr>\<rparr>
            (client_state (empty_world ())))
     = Inr \<lparr>resp_text = Data (JStr fullPrompt_V3),
            resp_metadata = JObj [(''finishReason'', JStr ''stop''),
                                  (''usage'', JObj [(''outputTokens'', JNum 12)])]\<rparr>
   \<and> fst (callRpgAssistantV3 echo_client \<lparr>auth = Some alice, data = hello_data\<rparr> (empty_world ()))
     = Throws (HttpsError Internal ''An internal error occurred. Check function logs for debug trace.'')
   \<and> fst (callRpgAssistantV2 echo_client \<lparr>auth = Some alice, data = hello_data\<rparr> (empty_world ()))
     = Returns (JObj [(''response'',
         JObj [(''result'', JStr (fullPrompt_V2 ''hello'')),
               (''telemetry'', JObj [(''traceId'', JStr ''trace-7f3a''),
                                     (''spanId'', JStr ''span-01'')])])])
   \<and> fst (echo_client \<lparr>prompt = fullPrompt_V2 ''hello'', history = None, config = \<lparr>temperature = 7 / 10, maxOutputTokens = 500\<rparr>\<rparr>
            (client_state (empty_world ())))
     = Inr \<lparr>resp_text = Data (JStr (fullPrompt_V2 ''hello'')),
            resp_metadata = JObj [(''finishReason'', JStr ''stop''),
                                  (''usage'', JObj [(''outputTokens'', JNum 12)])]\<rparr>"
proof -
  let ?hello = "\<lparr>auth = Some alice, data = hello_data\<rparr>"
  let ?w = "empty_world ()"
  let ?req3 = "\<lparr>prompt = fullPrompt_V3, history = None, config = \<lparr>temperature = 7 / 10, maxOutputTokens = 500\<rparr>\<rparr>"
  let ?req2 = "\<lparr>prompt = fullPrompt_V2 ''hello'', history = None, config = \<lparr>temperature = 7 / 10, maxOutputTokens = 500\<rparr>\<rparr>"
  let ?meta = "JObj [(''finishReason'', JStr ''stop''),
                     (''usage'', JObj [(''outputTokens'', JNum 12)])]"
  note main = response_is_not_the_model_text
  have m3: "fst (callRpgAssistantV3 method_client ?hello ?w)
              = Returns (JObj [(''response'', JStr ''[object Object]'')])"
    by (simp add: eval_defs)
  have mc: "method_client ?req3 ()
     = (Inr \<lparr>resp_text = Method (JStr ''The capital is Meridian.''), resp_metadata = JNull\<rparr>, ())"
    by (simp add: method_client_def)
  have t3: "model_calls (snd (callRpgAssistantV3 echo_client ?hello ?w))
              = model_calls ?w @ [?req3]"
    by (simp add: eval_defs)
  have a3: "echo_client ?req3 (client_state ?w)
              = (Inr \<lparr>resp_text = Data (JStr fullPrompt_V3), resp_metadata = ?meta\<rparr>, ())"
    by (simp add: echo_client_def)
  have a2: "echo_client ?req2 (client_state ?w)
              = (Inr \<lparr>resp_text = Data (JStr (fullPrompt_V2 ''hello'')),
                      resp_metadata = ?meta\<rparr>, ())"
    by (simp add: echo_client_def)
  have e3: "fst (callRpgAssistantV3 echo_client ?hello ?w) = Throws (HttpsError Internal ''An internal error occurred. Check function logs for debug trace.'')"
    using main [where client = echo_client and request = ?hello and w = ?w,
                THEN conjunct2, THEN conjunct1, rule_format,
                of ?req3 "\<lparr>resp_text = Data (JStr fullPrompt_V3), resp_metadata = ?meta\<rparr>"
                   "()" "JStr fullPrompt_V3"] t3 a3
    by simp
  have r2: "fst (callRpgAssistantV2 echo_client ?hello ?w)
     = Returns (JObj [(''response'',
         JObj [(''result'', JStr (fullPrompt_V2 ''hello'')),
               (''telemetry'', JObj [(''traceId'', JStr ''trace-7f3a''),
                                     (''spanId'', JStr ''span-01'')])])])"
    by (simp add: eval_defs)
  show ?thesis
    using m3 mc t3 a3 e3 r2 a2 by simp
qed


text \<open>
  C7. On an authenticated call with a valid \<^verbatim>\<open>userPrompt\<close> \<open>p\<close> and a conversation history
  that is an array \<open>turns\<close> of well-formed turns, the model client is invoked once, on
  the request whose \<^verbatim>\<open>history\<close> field is \<open>turns\<close> itself, in its order and with nothing
  changed (keys that the schema does not declare included), and whose \<^verbatim>\<open>prompt\<close> field is
  the composite prompt, a string in which \<open>turns\<close> does not occur. That the client was
  invoked on that request shows in its state, which is the one that this invocation
  left.
\<close>

theorem history_is_passed_unmodified:
  fixes client :: "'s model_client"
  assumes "auth request = Some a"
      and "destructure_prop (data request) ''userPrompt'' = Some (JStr p)"
      and "p \<noteq> []"
      and "destructure_prop (data request) ''conversationHistory'' = Some (JArr turns)"
      and "list_all turn_schema turns"
  shows "model_calls (snd (callRpgAssistantV3 client request w)) =
           model_calls w @ [\<lparr>prompt = fullPrompt_V3, history = Some turns, config = \<lparr>temperature = 7 / 10, maxOutputTokens = 500\<rparr>\<rparr>]
       \<and> client_state (snd (callRpgAssistantV3 client request w)) =
           snd (client \<lparr>prompt = fullPrompt_V3, history = Some turns, config = \<lparr>temperature = 7 / 10, maxOutputTokens = 500\<rparr>\<rparr> (client_state w))
       \<and> model_calls (snd (callRpgAssistantV2 client request w)) =
           model_calls w @ [\<lparr>prompt = fullPrompt_V2 p, history = Some turns, config = \<lparr>temperature = 7 / 10, maxOutputTokens = 500\<rparr>\<rparr>]
       \<and> client_state (snd (callRpgAssistantV2 client request w)) =
           snd (client \<lparr>prompt = fullPrompt_V2 p, history = Some turns, config = \<lparr>temperature = 7 / 10, maxOutputTokens = 500\<rparr>\<rparr> (client_state w))"
proof -
  note s = inputSchema_turns [OF assms(5), of p]
  from V3_accepted_calls [where client = client and w = w, OF assms(1-4) s]
       V2_accepted_calls [where client = client and w = w, OF assms(1-4) s]
  show ?thesis by simp
qed

theorem history_is_passed_unmodified_witness:
  "auth \<lparr>auth = Some alice, data = history_data\<rparr> = Some alice
   \<and> destructure_prop (data \<lparr>auth = Some alice, data = history_data\<rparr>) ''userPrompt''
       = Some (JStr ''hello'')
   \<and> ''hello'' \<noteq> []
   \<and> destructure_prop (data \<lparr>auth = Some alice, data = history_data\<rparr>) ''conversationHistory''
       = Some (JArr [turn_A, turn_B, turn_C])
   \<and> list_all turn_schema [turn_A, turn_B, turn_C]
   \<and> model_calls (snd (callRpgAssistantV3 flaky_client
         \<lparr>auth = Some alice, data = history_data\<rparr> (empty_world (0::nat)))) =
       [\<lparr>prompt = fullPrompt_V3, history = Some [turn_A, turn_B, turn_C], config = \<lparr>temperature = 7 / 10, maxOutputTokens = 500\<rparr>\<rparr>]
   \<and> client_state (snd (callRpgAssistantV3 flaky_client
         \<lparr>auth = Some alice, data = history_data\<rparr> (empty_world (0::nat)))) = Suc 0
   \<and> model_calls (snd (callRpgAssistantV2 flaky_client
         \<lparr>auth = Some alice, data = history_data\<rparr> (empty_world (0::nat)))) =
       [\<lparr>prompt = fullPrompt_V2 ''hello'', history = Some [turn_A, turn_B, turn_C], config = \<lparr>temperature = 7 / 10, maxOutputTokens = 500\<rparr>\<rparr>]
   \<and> client_state (snd (callRpgAssistantV2 flaky_client
         \<lparr>auth = Some alice, data = history_data\<rparr> (empty_world (0::nat)))) = Suc 0"
proof -
  let ?rq = "\<lparr>auth = Some alice, data = history_data\<rparr>"
  have h1: "auth ?rq = Some alice" by simp
  have h2: "destructure_prop (data ?rq) ''userPrompt'' = Some (JStr ''hello'')"
    by (simp add: history_data_def)
  have h3: "''hello'' \<noteq> []" by simp
  have h4: "destructure_prop (data ?rq) ''conversationHistory''
              = Some (JArr [turn_A, turn_B, turn_C])"
    by (simp add: history_data_def)
  have h5: "list_all turn_schema [turn_A, turn_B, turn_C]"
    by (simp add: turn_schema_def part_schema_def turn_A_def turn_B_def turn_C_def)
  from history_is_passed_unmodified
         [where client = flaky_client and w = "empty_world (0::nat)", OF h1 h2 h3 h4 h5]
       h1 h2 h3 h4 h5
  show ?thesis by (simp add: empty_world_def flaky_client_def)
qed

text \<open>
  C8. Every run of the flow's body invokes the model client once, on a request with the
  generation parameters temperature 0.7 and at most 500 output tokens, whatever the
  input: the two numbers are literals of the body. The client's state after the run
  is the one that this invocation left, and what the body yields is decided by what
  the client answered to it. Hence a call of a handler either does not invoke the
  client, or invokes it once on a request that carries these parameters.
\<close>

theorem generation_parameters_are_fixed:
  fixes client :: "'s model_client"
  shows
  "(\<exists>req. model_calls (snd (rpgAssistantFlow_V3 client input w)) = model_calls w @ [req]
          \<and> config req = \<lparr>temperature = 7 / 10, maxOutputTokens = 500\<rparr>
          \<and> client_state (snd (rpgAssistantFlow_V3 client input w))
              = snd (client req (client_state w))
          \<and> fst (rpgAssistantFlow_V3 client input w)
              = (case fst (client req (client_state w)) of
                   Inl e \<Rightarrow> Inl e
                 | Inr r \<Rightarrow> call_text r))
   \<and> (\<exists>req. model_calls (snd (rpgAssistantFlow_V2 client input w)) = model_calls w @ [req]
          \<and> config req = \<lparr>temperature = 7 / 10, maxOutputTokens = 500\<rparr>
          \<and> client_state (snd (rpgAssistantFlow_V2 client input w))
              = snd (client req (client_state w))
          \<and> fst (rpgAssistantFlow_V2 client input w)
              = (case fst (client req (client_state w)) of
                   Inl e \<Rightarrow> Inl e
                 | Inr r \<Rightarrow> Inr (resp_text r)))
   \<and> (model_calls (snd (callRpgAssistantV3 client request w)) = model_calls w
      \<and> client_state (snd (callRpgAssistantV3 client request w)) = client_state w
    \<or> (\<exists>req. model_calls (snd (callRpgAssistantV3 client request w)) = model_calls w @ [req]
          \<and> config req = \<lparr>temperature = 7 / 10, maxOutputTokens = 500\<rparr>
          \<and> client_state (snd (callRpgAssistantV3 client request w))
              = snd (client req (client_state w))))
   \<and> (model_calls (snd (callRpgAssistantV2 client request w)) = model_calls w
      \<and> client_state (snd (callRpgAssistantV2 client request w)) = client_state w
    \<or> (\<exists>req. model_calls (snd (callRpgAssistantV2 client request w)) = model_calls w @ [req]
          \<and> config req = \<lparr>temperature = 7 / 10, maxOutputTokens = 500\<rparr>
          \<and> client_state (snd (callRpgAssistantV2 client request w))
              = snd (client req (client_state w))))"
proof (intro conjI)
  show "(\<exists>req. model_calls (snd (rpgAssistantFlow_V3 client input w)) = model_calls w @ [req]
          \<and> config req = \<lparr>temperature = 7 / 10, maxOutputTokens = 500\<rparr>
          \<and> client_state (snd (rpgAssistantFlow_V3 client input w))
              = snd (client req (client_state w))
          \<and> fst (rpgAssistantFlow_V3 client input w)
              = (case fst (client req (client_state w)) of
                   Inl e \<Rightarrow> Inl e
                 | Inr r \<Rightarrow> call_text r))"
  proof -
    let ?req = "\<lparr>prompt = fullPrompt_V3, history = fi_conversationHistory input,
                  config = \<lparr>temperature = 7 / 10, maxOutputTokens = 500\<rparr>\<rparr>"
    obtain res s' where c: "client ?req (client_state w) = (res, s')"
      by (cases "client ?req (client_state w)") auto
    then have "model_calls (snd (rpgAssistantFlow_V3 client input w)) = model_calls w @ [?req]
          \<and> config ?req = \<lparr>temperature = 7 / 10, maxOutputTokens = 500\<rparr>
          \<and> client_state (snd (rpgAssistantFlow_V3 client input w))
              = snd (client ?req (client_state w))
          \<and> fst (rpgAssistantFlow_V3 client input w)
              = (case fst (client ?req (client_state w)) of
                   Inl e \<Rightarrow> Inl e
                 | Inr r \<Rightarrow> call_text r)"
      by (cases res) (simp_all add: flow_V3_raises flow_V3_returns)
    then show ?thesis by blast
  qed
  show "(\<exists>req. model_calls (snd (rpgAssistantFlow_V2 client input w)) = model_calls w @ [req]
          \<and> config req = \<lparr>temperature = 7 / 10, maxOutputTokens = 500\<rparr>
          \<and> client_state (snd (rpgAssistantFlow_V2 client input w))
              = snd (client req (client_state w))
          \<and> fst (rpgAssistantFlow_V2 client input w)
              = (case fst (client req (client_state w)) of
                   Inl e \<Rightarrow> Inl e
                 | Inr r \<Rightarrow> Inr (resp_text r)))"
  proof -
    let ?req = "\<lparr>prompt = fullPrompt_V2 (fi_userPrompt input), history = fi_conversationHistory input,
                  config = \<lparr>temperature = 7 / 10, maxOutputTokens = 500\<rparr>\<rparr>"
    obtain res s' where c: "client ?req (client_state w) = (res, s')"
      by (cases "client ?req (client_state w)") auto
    then have "model_calls (snd (rpgAssistantFlow_V2 client input w)) = model_calls w @ [?req]
          \<and> config ?req = \<lparr>temperature = 7 / 10, maxOutputTokens = 500\<rparr>
          \<and> client_state (snd (rpgAssistantFlow_V2 client input w))
              = snd (client ?req (client_state w))
          \<and> fst (rpgAssistantFlow_V2 client input w)
              = (case fst (client ?req (client_state w)) of
                   Inl e \<Rightarrow> Inl e
                 | Inr r \<Rightarrow> Inr (resp_text r))"
      by (cases res) (simp_all add: flow_V2_raises flow_V2_returns)
    then show ?thesis by blast
  qed
  show "(model_calls (snd (callRpgAssistantV3 client request w)) = model_calls w
      \<and> client_state (snd (callRpgAssistantV3 client request w)) = client_state w
    \<or> (\<exists>req. model_calls (snd (callRpgAssistantV3 client request w)) = model_calls w @ [req]
          \<and> config req = \<lparr>temperature = 7 / 10, maxOutputTokens = 500\<rparr>
          \<and> client_state (snd (callRpgAssistantV3 client request w))
              = snd (client req (client_state w))))"
    using V3_outcome [of client request w]
    by (elim disjE exE conjE) simp_all
  show "(model_calls (snd (callRpgAssistantV2 client request w)) = model_calls w
      \<and> client_state (snd (callRpgAssistantV2 client request w)) = client_state w
    \<or> (\<exists>req. model_calls (snd (callRpgAssistantV2 client request w)) = model_calls w @ [req]
          \<and> config req = \<lparr>temperature = 7 / 10, maxOutputTokens = 500\<rparr>
          \<and> client_state (snd (callRpgAssistantV2 client request w))
              = snd (client req (client_state w))))"
    using V2_outcome [of client request w]
    by (elim disjE exE conjE) simp_all
qed

theorem generation_parameters_are_fixed_witness:
  "model_calls (snd (rpgAssistantFlow_V3 flaky_client
       \<lparr>fi_userPrompt = ''hello'', fi_conversationHistory = None\<rparr> (empty_world (Suc 0)))) =
     [\<lparr>prompt = fullPrompt_V3, history = None, config = \<lparr>temperature = 7 / 10, maxOutputTokens = 500\<rparr>\<rparr>]
   \<and> client_state (snd (rpgAssistantFlow_V3 flaky_client
       \<lparr>fi_userPrompt = ''hello'', fi_conversationHistory = None\<rparr> (empty_world (Suc 0)))) =
     Suc (Suc 0)
   \<and> model_calls (snd (rpgAssistantFlow_V2 flaky_client
       \<lparr>fi_userPrompt = ''hello'', fi_conversationHistory = None\<rparr> (empty_world (Suc 0)))) =
     [\<lparr>prompt = fullPrompt_V2 ''hello'', history = None, config = \<lparr>temperature = 7 / 10, maxOutputTokens = 500\<rparr>\<rparr>]
   \<and> fst (rpgAssistantFlow_V2 flaky_client
       \<lparr>fi_userPrompt = ''hello'', fi_conversationHistory = None\<rparr> (empty_world (Suc 0))) =
     Inr (Data (JStr ''The capital is Meridian.''))
   \<and> model_calls (snd (callRpgAssistantV3 flaky_client
         \<lparr>auth = Some alice, data = hello_data\<rparr> (empty_world (Suc 0)))) =
       [\<lparr>prompt = fullPrompt_V3, history = None, config = \<lparr>temperature = 7 / 10, maxOutputTokens = 500\<rparr>\<rparr>]
   \<and> client_state (snd (callRpgAssistantV3 flaky_client
         \<lparr>auth = Some alice, data = hello_data\<rparr> (empty_world (Suc 0)))) = Suc (Suc 0)
   \<and> model_calls (snd (callRpgAssistantV2 flaky_client
         \<lparr>auth = Some alice, data = hello_data\<rparr> (empty_world (Suc 0)))) =
       [\<lparr>prompt = fullPrompt_V2 ''hello'', history = None, config = \<lparr>temperature = 7 / 10, maxOutputTokens = 500\<rparr>\<rparr>]
   \<and> client_state (snd (callRpgAssistantV2 flaky_client
         \<lparr>auth = Some alice, data = hello_data\<rparr> (empty_world (Suc 0)))) = Suc (Suc 0)"
proof -
  let ?rq = "\<lparr>auth = Some alice, data = hello_data\<rparr>"
  let ?in = "\<lparr>fi_userPrompt = ''hello'', fi_conversationHistory = None\<rparr>"
  let ?w = "empty_world (Suc 0)"
  let ?req3 = "\<lparr>prompt = fullPrompt_V3, history = None, config = \<lparr>temperature = 7 / 10, maxOutputTokens = 500\<rparr>\<rparr>"
  let ?req2 = "\<lparr>prompt = fullPrompt_V2 ''hello'', history = None, config = \<lparr>temperature = 7 / 10, maxOutputTokens = 500\<rparr>\<rparr>"
  note main = generation_parameters_are_fixed [where client = flaky_client and w = ?w
    and request = ?rq and input = ?in]
  have w: "model_calls ?w = []" "client_state ?w = Suc 0"
    by (simp_all add: empty_world_def)
  have f3: "model_calls (snd (rpgAssistantFlow_V3 flaky_client ?in ?w)) = [?req3]"
    and f2: "model_calls (snd (rpgAssistantFlow_V2 flaky_client ?in ?w)) = [?req2]"
    and h3: "model_calls (snd (callRpgAssistantV3 flaky_client ?rq ?w)) = [?req3]"
    and h2: "model_calls (snd (callRpgAssistantV2 flaky_client ?rq ?w)) = [?req2]"
    by (simp_all add: eval_defs)
  have n: "snd (flaky_client ?req3 (Suc 0)) = Suc (Suc 0)"
          "snd (flaky_client ?req2 (Suc 0)) = Suc (Suc 0)"
          "fst (flaky_client ?req2 (Suc 0)) =
             Inr \<lparr>resp_text = Data (JStr ''The capital is Meridian.''), resp_metadata = JNull\<rparr>"
    by (simp_all add: flaky_client_def)
  from main [THEN conjunct1] f3 w n
  have s3: "client_state (snd (rpgAssistantFlow_V3 flaky_client ?in ?w)) = Suc (Suc 0)"
    by auto
  from main [THEN conjunct2, THEN conjunct1] f2 w n
  have r2: "fst (rpgAssistantFlow_V2 flaky_client ?in ?w) =
              Inr (Data (JStr ''The capital is Meridian.''))"
    by auto
  from main [THEN conjunct2, THEN conjunct2, THEN conjunct1] h3 w n
  have c3: "client_state (snd (callRpgAssistantV3 flaky_client ?rq ?w)) = Suc (Suc 0)"
    by auto
  from main [THEN conjunct2, THEN conjunct2, THEN conjunct2] h2 w n
  have c2: "client_state (snd (callRpgAssistantV2 flaky_client ?rq ?w)) = Suc (Suc 0)"
    by auto
  show ?thesis
    by (intro conjI) (rule f3 s3 f2 r2 h3 c3 h2 c2)+
qed

text \<open>
  C9. A call invokes the model client at most once. Either the trace of requests and
  the client's state are as they were; or the trace has grown by exactly one request,
  the client's state is the one that this single invocation left, and, if that
  invocation threw, the call ended with the \<open>internal\<close> error: the handler did not
  invoke the client again.
\<close>

theorem model_client_invoked_at_most_once:
  fixes client :: "'s model_client"
  shows
  "(model_calls (snd (callRpgAssistantV3 client request w)) = model_calls w
      \<and> client_state (snd (callRpgAssistantV3 client request w)) = client_state w
    \<or> (\<exists>req. model_calls (snd (callRpgAssistantV3 client request w)) = model_calls w @ [req]
          \<and> client_state (snd (callRpgAssistantV3 client request w))
              = snd (client req (client_state w))
          \<and> (\<forall>e. fst (client req (client_state w)) = Inl e
                \<longrightarrow> fst (callRpgAssistantV3 client request w)
                     = Throws (HttpsError Internal ''An internal error occurred. Check function logs for debug trace.''))))
   \<and> (model_calls (snd (callRpgAssistantV2 client request w)) = model_calls w
      \<and> client_state (snd (callRpgAssistantV2 client request w)) = client_state w
    \<or> (\<exists>req. model_calls (snd (callRpgAssistantV2 client request w)) = model_calls w @ [req]
          \<and> client_state (snd (callRpgAssistantV2 client request w))
              = snd (client req (client_state w))
          \<and> (\<forall>e. fst (client req (client_state w)) = Inl e
                \<longrightarrow> fst (callRpgAssistantV2 client request w)
                     = Throws (HttpsError Internal ''An internal error occurred while processing your request. Check the function logs for details.''))))"
proof (intro conjI)
  show "model_calls (snd (callRpgAssistantV3 client request w)) = model_calls w
      \<and> client_state (snd (callRpgAssistantV3 client request w)) = client_state w
    \<or> (\<exists>req. model_calls (snd (callRpgAssistantV3 client request w)) = model_calls w @ [req]
          \<and> client_state (snd (callRpgAssistantV3 client request w))
              = snd (client req (client_state w))
          \<and> (\<forall>e. fst (client req (client_state w)) = Inl e
                \<longrightarrow> fst (callRpgAssistantV3 client request w)
                     = Throws (HttpsError Internal ''An internal error occurred. Check function logs for debug trace.'')))"
    using V3_outcome [of client request w]
    by (elim disjE exE conjE) simp_all
  show "model_calls (snd (callRpgAssistantV2 client request w)) = model_calls w
      \<and> client_state (snd (callRpgAssistantV2 client request w)) = client_state w
    \<or> (\<exists>req. model_calls (snd (callRpgAssistantV2 client request w)) = model_calls w @ [req]
          \<and> client_state (snd (callRpgAssistantV2 client request w))
              = snd (client req (client_state w))
          \<and> (\<forall>e. fst (client req (client_state w)) = Inl e
                \<longrightarrow> fst (callRpgAssistantV2 client request w)
                     = Throws (HttpsError Internal ''An internal error occurred while processing your request. Check the function logs for details.'')))"
    using V2_outcome [of client request w]
    by (elim disjE exE conjE) simp_all
qed


theorem model_client_invoked_at_most_once_witness:
  "model_calls (snd (callRpgAssistantV3 flaky_client
       \<lparr>auth = Some alice, data = hello_data\<rparr> (empty_world (0::nat)))) =
     model_calls (empty_world (0::nat)) @
       [\<lparr>prompt = fullPrompt_V3, history = None, config = \<lparr>temperature = 7 / 10, maxOutputTokens = 500\<rparr>\<rparr>]
   \<and> fst (flaky_client \<lparr>prompt = fullPrompt_V3, history = None, config = \<lparr>temperature = 7 / 10, maxOutputTokens = 500\<rparr>\<rparr>
            (client_state (empty_world (0::nat)))) = Inl (Error_obj ''503 Service Unavailable'')
   \<and> fst (flaky_client \<lparr>prompt = fullPrompt_V3, history = None, config = \<lparr>temperature = 7 / 10, maxOutputTokens = 500\<rparr>\<rparr> (Suc 0)) =
       Inr \<lparr>resp_text = Data (JStr ''The capital is Meridian.''), resp_metadata = JNull\<rparr>
   \<and> client_state (snd (callRpgAssistantV3 flaky_client
         \<lparr>auth = Some alice, data = hello_data\<rparr> (empty_world (0::nat)))) = Suc 0
   \<and> fst (callRpgAssistantV3 flaky_client
         \<lparr>auth = Some alice, data = hello_data\<rparr> (empty_world (0::nat))) =
       Throws (HttpsError Internal ''An internal error occurred. Check function logs for debug trace.'')
   \<and> model_calls (snd (callRpgAssistantV2 flaky_client
         \<lparr>auth = Some alice, data = hello_data\<rparr> (empty_world (0::nat)))) =
       model_calls (empty_world (0::nat)) @
         [\<lparr>prompt = fullPrompt_V2 ''hello'', history = None, config = \<lparr>temperature = 7 / 10, maxOutputTokens = 500\<rparr>\<rparr>]
   \<and> fst (flaky_client \<lparr>prompt = fullPrompt_V2 ''hello'', history = None, config = \<lparr>temperature = 7 / 10, maxOutputTokens = 500\<rparr>\<rparr>
            (client_state (empty_world (0::nat)))) = Inl (Error_obj ''503 Service Unavailable'')
   \<and> client_state (snd (callRpgAssistantV2 flaky_client
         \<lparr>auth = Some alice, data = hello_data\<rparr> (empty_world (0::nat)))) = Suc 0
   \<and> fst (callRpgAssistantV2 flaky_client
         \<lparr>auth = Some alice, data = hello_data\<rparr> (empty_world (0::nat))) =
       Throws (HttpsError Internal ''An internal error occurred while processing your request. Check the function logs for details.'')"
proof -
  let ?rq = "\<lparr>auth = Some alice, data = hello_data\<rparr>"
  let ?w = "empty_world (0::nat)"
  let ?req3 = "\<lparr>prompt = fullPrompt_V3, history = None, config = \<lparr>temperature = 7 / 10, maxOutputTokens = 500\<rparr>\<rparr>"
  let ?req2 = "\<lparr>prompt = fullPrompt_V2 ''hello'', history = None, config = \<lparr>temperature = 7 / 10, maxOutputTokens = 500\<rparr>\<rparr>"
  note inst = model_client_invoked_at_most_once [where client = flaky_client and request = ?rq
    and w = ?w]
  have m3: "model_calls (snd (callRpgAssistantV3 flaky_client ?rq ?w)) = model_calls ?w @ [?req3]"
    by (simp add: eval_defs)
  have m2: "model_calls (snd (callRpgAssistantV2 flaky_client ?rq ?w)) = model_calls ?w @ [?req2]"
    by (simp add: eval_defs)
  have f3: "fst (flaky_client ?req3 (client_state ?w)) = Inl (Error_obj ''503 Service Unavailable'')"
    and f2: "fst (flaky_client ?req2 (client_state ?w)) = Inl (Error_obj ''503 Service Unavailable'')"
    and n3: "snd (flaky_client ?req3 (client_state ?w)) = Suc 0"
    and n2: "snd (flaky_client ?req2 (client_state ?w)) = Suc 0"
    and again: "fst (flaky_client ?req3 (Suc 0)) =
       Inr \<lparr>resp_text = Data (JStr ''The capital is Meridian.''), resp_metadata = JNull\<rparr>"
    by (simp_all add: flaky_client_def empty_world_def)
  from inst [THEN conjunct1] m3
  have "client_state (snd (callRpgAssistantV3 flaky_client ?rq ?w))
          = snd (flaky_client ?req3 (client_state ?w))
        \<and> (\<forall>e. fst (flaky_client ?req3 (client_state ?w)) = Inl e
              \<longrightarrow> fst (callRpgAssistantV3 flaky_client ?rq ?w)
                   = Throws (HttpsError Internal ''An internal error occurred. Check function logs for debug trace.''))"
    by auto
  with f3 n3 have r3: "client_state (snd (callRpgAssistantV3 flaky_client ?rq ?w)) = Suc 0"
    "fst (callRpgAssistantV3 flaky_client ?rq ?w) = Throws (HttpsError Internal ''An internal error occurred. Check function logs for debug trace.'')"
    by simp_all
  from inst [THEN conjunct2] m2
  have "client_state (snd (callRpgAssistantV2 flaky_client ?rq ?w))
          = snd (flaky_client ?req2 (client_state ?w))
        \<and> (\<forall>e. fst (flaky_client ?req2 (client_state ?w)) = Inl e
              \<longrightarrow> fst (callRpgAssistantV2 flaky_client ?rq ?w)
                   = Throws (HttpsError Internal ''An internal error occurred while processing your request. Check the function logs for details.''))"
    by auto
  with f2 n2 have r2: "client_state (snd (callRpgAssistantV2 flaky_client ?rq ?w)) = Suc 0"
    "fst (callRpgAssistantV2 flaky_client ?rq ?w) = Throws (HttpsError Internal ''An internal error occurred while processing your request. Check the function logs for details.'')"
    by simp_all
  show ?thesis
    by (intro conjI) (rule m3 f3 again r3 m2 f2 r2)+
qed

text \<open>
  C10. Two calls with present authentication contexts, the same payload, the same model
  client and the same initial world end alike, whatever the two contexts hold. For
  \<^verbatim>\<open>callRpgAssistantV3\<close> the result and the whole final world are equal: the handler
  reads \<^verbatim>\<open>request.auth\<close> only to test its presence. For \<^verbatim>\<open>callRpgAssistantV2\<close> the result,
  the requests sent to the model client, the runs of the flow and the client's state
  are equal; the \<^verbatim>\<open>uid\<close> is written to the console and nowhere else.
\<close>

theorem result_is_independent_of_uid:
  fixes client :: "'s model_client"
  assumes "auth r1 = Some a1" and "auth r2 = Some a2" and "data r1 = data r2"
  shows "callRpgAssistantV3 client r1 w = callRpgAssistantV3 client r2 w
       \<and> fst (callRpgAssistantV2 client r1 w) = fst (callRpgAssistantV2 client r2 w)
       \<and> model_calls (snd (callRpgAssistantV2 client r1 w))
           = model_calls (snd (callRpgAssistantV2 client r2 w))
       \<and> flow_runs (snd (callRpgAssistantV2 client r1 w))
           = flow_runs (snd (callRpgAssistantV2 client r2 w))
       \<and> client_state (snd (callRpgAssistantV2 client r1 w))
           = client_state (snd (callRpgAssistantV2 client r2 w))"
proof -
  have v3: "callRpgAssistantV3 client r1 w = callRpgAssistantV3 client r2 w"
    by (simp add: callRpgAssistantV3_def assms)
  have v2: "fst (callRpgAssistantV2 client r1 w) = fst (callRpgAssistantV2 client r2 w)
       \<and> model_calls (snd (callRpgAssistantV2 client r1 w))
           = model_calls (snd (callRpgAssistantV2 client r2 w))
       \<and> flow_runs (snd (callRpgAssistantV2 client r1 w))
           = flow_runs (snd (callRpgAssistantV2 client r2 w))
       \<and> client_state (snd (callRpgAssistantV2 client r1 w))
           = client_state (snd (callRpgAssistantV2 client r2 w))"
  proof (cases rule: V2_cases [where request = r1 and client = client and w = w])
    case unauth
    with assms(1) show ?thesis by simp
  next
    case (type_error a)
    note c1 = type_error(2)
    note c2 = c1 [unfolded assms(3)]
    show ?thesis
      by (simp add: V2_type_error [OF assms(1) c1] V2_type_error [OF assms(2) c2])
  next
    case (invalid a v)
    note c1 = invalid(2)
    note c2 = c1 [unfolded assms(3)]
    show ?thesis
      by (simp add: V2_invalid [OF assms(1) c1 invalid(3)] V2_invalid [OF assms(2) c2 invalid(3)]
            console_log_def console_error_def)
  next
    case (schema a p h)
    note c1 = schema(2-5)
    note c2 = schema(2) [unfolded assms(3)] schema(3) schema(4) [unfolded assms(3)] schema(5)
    show ?thesis
      by (simp add: V2_schema_path [OF assms(1) c1] V2_schema_path [OF assms(2) c2])
  next
    case (client_error a p h input e s')
    note c1 = client_error(2-6)
    note c2 = client_error(2) [unfolded assms(3)] client_error(3)
      client_error(4) [unfolded assms(3)] client_error(5,6)
    show ?thesis
      by (simp add: V2_client_error_path [where client = client and w = w, OF assms(1) c1]
            V2_client_error_path [where client = client and w = w, OF assms(2) c2])
  next
    case (bad_output a p h input r s')
    note c1 = bad_output(2-7)
    note c2 = bad_output(2) [unfolded assms(3)] bad_output(3)
      bad_output(4) [unfolded assms(3)] bad_output(5,6,7)
    show ?thesis
      by (simp add: V2_bad_output_path [where client = client and w = w, OF assms(1) c1]
            V2_bad_output_path [where client = client and w = w, OF assms(2) c2])
  next
    case (success a p h input r s' t)
    note c1 = success(2-7)
    note c2 = success(2) [unfolded assms(3)] success(3)
      success(4) [unfolded assms(3)] success(5,6,7)
    show ?thesis
      by (simp add: V2_success_path [where client = client and w = w, OF assms(1) c1]
            V2_success_path [where client = client and w = w, OF assms(2) c2])
  qed
  from v3 v2 show ?thesis by simp
qed

theorem result_is_independent_of_uid_witness:
  "auth \<lparr>auth = Some alice, data = history_data\<rparr> = Some alice
   \<and> auth \<lparr>auth = Some bob, data = history_data\<rparr> = Some bob
   \<and> data \<lparr>auth = Some alice, data = history_data\<rparr> = data \<lparr>auth = Some bob, data = history_data\<rparr>
   \<and> uid alice \<noteq> uid bob
   \<and> callRpgAssistantV3 echo_client \<lparr>auth = Some alice, data = history_data\<rparr> (empty_world ())
       = callRpgAssistantV3 echo_client \<lparr>auth = Some bob, data = history_data\<rparr> (empty_world ())
   \<and> fst (callRpgAssistantV2 echo_client \<lparr>auth = Some alice, data = history_data\<rparr>
            (empty_world ()))
       = fst (callRpgAssistantV2 echo_client \<lparr>auth = Some bob, data = history_data\<rparr>
            (empty_world ()))
   \<and> model_calls (snd (callRpgAssistantV2 echo_client \<lparr>auth = Some alice, data = history_data\<rparr>
            (empty_world ())))
       = model_calls (snd (callRpgAssistantV2 echo_client \<lparr>auth = Some bob, data = history_data\<rparr>
            (empty_world ())))
   \<and> flow_runs (snd (callRpgAssistantV2 echo_client \<lparr>auth = Some alice, data = history_data\<rparr>
            (empty_world ())))
       = flow_runs (snd (callRpgAssistantV2 echo_client \<lparr>auth = Some bob, data = history_data\<rparr>
            (empty_world ())))
   \<and> client_state (snd (callRpgAssistantV2 echo_client \<lparr>auth = Some alice, data = history_data\<rparr>
            (empty_world ())))
       = client_state (snd (callRpgAssistantV2 echo_client \<lparr>auth = Some bob, data = history_data\<rparr>
            (empty_world ())))
   \<and> fst (callRpgAssistantV2 echo_client \<lparr>auth = Some alice, data = history_data\<rparr>
            (empty_world ()))
       = Returns (JObj [(''response'',
           JObj [(''result'', JStr (fullPrompt_V2 ''hello'')),
                 (''telemetry'', JObj [(''traceId'', JStr ''trace-7f3a''),
                                       (''spanId'', JStr ''span-01'')])])])"
proof -
  let ?r1 = "\<lparr>auth = Some alice, data = history_data\<rparr>"
  let ?r2 = "\<lparr>auth = Some bob, data = history_data\<rparr>"
  have h1: "auth ?r1 = Some alice" and h2: "auth ?r2 = Some bob" and h3: "data ?r1 = data ?r2"
    by simp_all
  have d: "uid alice \<noteq> uid bob"
    by (simp add: alice_def bob_def)
  have r: "fst (callRpgAssistantV2 echo_client ?r1 (empty_world ()))
       = Returns (JObj [(''response'',
           JObj [(''result'', JStr (fullPrompt_V2 ''hello'')),
                 (''telemetry'', JObj [(''traceId'', JStr ''trace-7f3a''),
                                       (''spanId'', JStr ''span-01'')])])])"
    by (simp add: eval_defs)
  from result_is_independent_of_uid [OF h1 h2 h3, of echo_client "empty_world ()"] h1 h2 h3 d r
  show ?thesis by blast
qed

text \<open>
  C1. The flow of functions/src/index.ts, run on the user prompt \<open>hello\<close>, invokes the
  model client with the prompt \<^verbatim>\<open>You are Bastion, a helpful assistant for the Tangent SFF
  RPG.\<close>: the persona alone, in which \<open>hello\<close> does not occur. The same request is built
  for any other user prompt.
\<close>

theorem V3_flow_prompt_omits_userPrompt:
  "model_calls (snd (rpgAssistantFlow_V3 echo_client
       \<lparr>fi_userPrompt = ''hello'', fi_conversationHistory = None\<rparr> (empty_world ()))) =
     [\<lparr>prompt = ''You are Bastion, a helpful assistant for the Tangent SFF RPG.'',
       history = None, config = \<lparr>temperature = 7 / 10, maxOutputTokens = 500\<rparr>\<rparr>]
   \<and> \<not> sublist ''hello'' ''You are Bastion, a helpful assistant for the Tangent SFF RPG.''
   \<and> model_calls (snd (rpgAssistantFlow_V3 echo_client
       \<lparr>fi_userPrompt = ''Describe the capital city'', fi_conversationHistory = None\<rparr>
       (empty_world ()))) =
     [\<lparr>prompt = ''You are Bastion, a helpful assistant for the Tangent SFF RPG.'',
       history = None, config = \<lparr>temperature = 7 / 10, maxOutputTokens = 500\<rparr>\<rparr>]"
proof (intro conjI)
  show "\<not> sublist ''hello'' ''You are Bastion, a helpful assistant for the Tangent SFF RPG.''"
    by code_simp
qed (simp_all add: rpgAssistantFlow_V3_def fullPrompt_V3_def ai_generate_def echo_client_def
       empty_world_def Let_def)

text \<open>
  The flow of the second edition does what the first omits: its prompt is the persona
  with the user prompt inside, for every input.
\<close>

lemma V2_flow_prompt_embeds_userPrompt:
  fixes client :: "'s model_client"
  shows "\<exists>req. model_calls (snd (rpgAssistantFlow_V2 client input w)) = model_calls w @ [req]
           \<and> sublist (fi_userPrompt input) (prompt req)
           \<and> sublist ''You are Bastion'' (prompt req)"
proof -
  let ?req = "\<lparr>prompt = fullPrompt_V2 (fi_userPrompt input),
                history = fi_conversationHistory input, config = \<lparr>temperature = 7 / 10, maxOutputTokens = 500\<rparr>\<rparr>"
  have p: "sublist (fi_userPrompt input) (fullPrompt_V2 (fi_userPrompt input))"
    unfolding fullPrompt_V2_def sublist_def by blast
  have q: "sublist ''You are Bastion'' (fullPrompt_V2 (fi_userPrompt input))"
    unfolding sublist_def by (rule exI [of _ "[]"]) (simp add: fullPrompt_V2_def)
  obtain res s' where "client ?req (client_state w) = (res, s')"
    by (cases "client ?req (client_state w)") auto
  then have "model_calls (snd (rpgAssistantFlow_V2 client input w)) = model_calls w @ [?req]"
    by (cases res) (simp_all add: flow_V2_raises flow_V2_returns)
  with p q show ?thesis by auto
qed


text \<open>
  A payload that is \<^verbatim>\<open>null\<close> or \<^verbatim>\<open>undefined\<close> has no \<^verbatim>\<open>userPrompt\<close> to read. On an
  authenticated call the destructuring raises a TypeError, ahead of the validation
  and outside the \<^verbatim>\<open>try\<close> block; neither the flow nor the model client is invoked.
\<close>

lemma nullish_payload_raises_TypeError:
  fixes client :: "'s model_client"
  assumes "auth request = Some a" and "data request = JNull \<or> data request = JUndefined"
  shows "fst (callRpgAssistantV3 client request w) = Throws_TypeError
       \<and> fst (callRpgAssistantV2 client request w) = Throws_TypeError
       \<and> model_calls (snd (callRpgAssistantV3 client request w)) = model_calls w
       \<and> model_calls (snd (callRpgAssistantV2 client request w)) = model_calls w"
proof -
  from assms(2) have "destructure_prop (data request) ''userPrompt'' = None"
    by auto
  then show ?thesis
    by (simp add: V3_type_error [OF assms(1)] V2_type_error [OF assms(1)] console_log_def)
qed

end
